theory Spec2Isabelle
  imports Main
begin

section \<open>Strings as Python uses them\<close>

text \<open>
  Strings are lists of 8-bit characters. On such strings Python's \<open>\d\<close> is \<open>[0-9]\<close>,
  and \<open>str.lower\<close> maps no character outside \<open>A..Z\<close> to an ASCII letter, so for the
  ASCII needles the program searches for, lowering \<open>A..Z\<close> alone gives the same answers.
\<close>

definition startswith :: "string \<Rightarrow> string \<Rightarrow> bool" where
  "startswith s p = (take (length p) s = p)"

definition endswith :: "string \<Rightarrow> string \<Rightarrow> bool" where
  "endswith s p = (length p \<le> length s \<and> drop (length s - length p) s = p)"

text \<open>\<open>str_in n s\<close> is Python's \<open>n in s\<close> on strings: \<open>n\<close> occurs contiguously in \<open>s\<close>.\<close>

fun str_in :: "string \<Rightarrow> string \<Rightarrow> bool" where
  "str_in n [] = (n = [])"
| "str_in n (c # cs) = (startswith (c # cs) n \<or> str_in n cs)"

definition lower_char :: "char \<Rightarrow> char" where
  "lower_char c =
     (case map_of (zip ''ABCDEFGHIJKLMNOPQRSTUVWXYZ'' ''abcdefghijklmnopqrstuvwxyz'') c of
        Some d \<Rightarrow> d
      | None \<Rightarrow> c)"

definition lower :: "string \<Rightarrow> string" where
  "lower s = map lower_char s"

definition is_digit :: "char \<Rightarrow> bool" where
  "is_digit c = (c \<in> set ''0123456789'')"

text \<open>
  \<open>re.search(r'/candidate/(\d+)', s)\<close>, returning group 1 of the leftmost match:
  the longest run of digits after the first \<open>/candidate/\<close> that is followed by a digit.
\<close>

definition match_here :: "string \<Rightarrow> string option" where
  "match_here s =
     (if startswith s ''/candidate/''
      then (let ds = takeWhile is_digit (drop 11 s) in if ds = [] then None else Some ds)
      else None)"

fun search_candidate_id :: "string \<Rightarrow> string option" where
  "search_candidate_id [] = None"
| "search_candidate_id (c # cs) =
     (case match_here (c # cs) of
        Some d \<Rightarrow> Some d
      | None \<Rightarrow> search_candidate_id cs)"

section \<open>Exceptions and the Selenium objects\<close>

datatype exn =
    NoSuchElementException
  | TimeoutException
  | WebDriverException
  | UnboundLocalError
  | AttributeError
  | OSError
  | PyException string

datatype locator = XPATH | CSS_SELECTOR | TAG_NAME

text \<open>
  A \<open>WebElement\<close> is the browser's object: the program knows it through the answers of
  its methods only. Each method answers with a value or raises (\<open>Inl\<close>).
\<close>

datatype elem = Elem
  (get_attribute: "string \<Rightarrow> exn + string option")
  (find_element: "locator \<Rightarrow> string \<Rightarrow> exn + elem")
  (find_elements: "locator \<Rightarrow> string \<Rightarrow> exn + elem list")
  (text_of: "exn + string")
  (tag_name: "exn + string")
  (is_displayed: "exn + bool")
  (click: "exn option")

text \<open>Python's \<open>x or ""\<close> on an optional string.\<close>

definition or_empty :: "string option \<Rightarrow> string" where
  "or_empty v = (case v of None \<Rightarrow> [] | Some x \<Rightarrow> x)"

section \<open>\<open>is_candidate_not_hired\<close>\<close>

text \<open>
  Lines 347--367: the quick check of the element and of its immediate parent. The result
  is whether the block executed \<open>return True\<close>; every exception ends in \<open>pass\<close>.
\<close>

definition quick_parent_check :: "elem \<Rightarrow> bool" where
  "quick_parent_check element =
     (case find_element element XPATH ''./..'' of
        Inl _ \<Rightarrow> False
      | Inr parent \<Rightarrow>
          (case get_attribute parent ''class'' of
             Inl _ \<Rightarrow> False
           | Inr pc \<Rightarrow>
               if str_in ''is-workflow-not-hired'' (or_empty pc) then True
               else (case find_elements parent CSS_SELECTOR
                            ''.is-workflow-not-hired, .jz-tag.is-workflow-not-hired'' of
                       Inl _ \<Rightarrow> False
                     | Inr not_hired_tags \<Rightarrow> not_hired_tags \<noteq> [])))"

definition quick_check :: "elem \<Rightarrow> bool" where
  "quick_check element =
     (case get_attribute element ''class'' of
        Inl _ \<Rightarrow> False
      | Inr c \<Rightarrow>
          if str_in ''is-workflow-not-hired'' (or_empty c) \<or> str_in ''not-hired'' (lower (or_empty c))
          then True
          else quick_parent_check element)"

text \<open>
  Lines 382--385: the loop over the workflow tags. \<open>Inl\<close> when reading a tag's text raises,
  \<open>Inr True\<close> when the loop executed \<open>return True\<close>.
\<close>

fun tags_not_hired :: "elem list \<Rightarrow> exn + bool" where
  "tags_not_hired [] = Inr False"
| "tags_not_hired (tag # tags) =
     (case text_of tag of
        Inl e \<Rightarrow> Inl e
      | Inr t \<Rightarrow> if str_in ''not hired'' (lower t) then Inr True else tags_not_hired tags)"

text \<open>
  Lines 373--390: \<open>for level in range(3)\<close>, with the number of levels left as the
  argument; any exception breaks out of the loop.
\<close>

fun level_loop :: "nat \<Rightarrow> elem \<Rightarrow> bool" where
  "level_loop 0 parent = False"
| "level_loop (Suc n) parent =
     (case find_elements parent CSS_SELECTOR ''.is-workflow-not-hired'' of
        Inl _ \<Rightarrow> False
      | Inr not_hired_elements \<Rightarrow>
          if not_hired_elements \<noteq> [] then True
          else (case find_elements parent CSS_SELECTOR
                       ''.jz-tag.is-workflow-not-hired, .jz-tag[class*='workflow']'' of
                  Inl _ \<Rightarrow> False
                | Inr workflow_tags \<Rightarrow>
                    (case tags_not_hired workflow_tags of
                       Inl _ \<Rightarrow> False
                     | Inr True \<Rightarrow> True
                     | Inr False \<Rightarrow>
                         (case find_element parent XPATH ''./..'' of
                            Inl _ \<Rightarrow> False
                          | Inr p \<Rightarrow> level_loop n p))))"

definition is_candidate_not_hired :: "elem \<Rightarrow> bool" where
  "is_candidate_not_hired element = (if quick_check element then True else level_loop 3 element)"

subsection \<open>What the inspection of one candidate element can observe\<close>

text \<open>Level \<open>i\<close> of the ancestor chain: the element reached by \<open>i\<close> steps of \<open>./..\<close>.\<close>

fun ancestor :: "nat \<Rightarrow> elem \<Rightarrow> elem option" where
  "ancestor 0 e = Some e"
| "ancestor (Suc n) e =
     (case find_element e XPATH ''./..'' of Inl _ \<Rightarrow> None | Inr p \<Rightarrow> ancestor n p)"

text \<open>The element's own class attribute carries the marker class.\<close>

definition class_marker :: "elem \<Rightarrow> bool" where
  "class_marker a =
     (case get_attribute a ''class'' of
        Inr (Some c) \<Rightarrow> str_in ''is-workflow-not-hired'' c
      | _ \<Rightarrow> False)"

text \<open>A successful search below \<open>a\<close> finds a marked descendant or a workflow tag reading "not hired".\<close>

definition descendant_marker :: "elem \<Rightarrow> bool" where
  "descendant_marker a =
     (case find_elements a CSS_SELECTOR ''.is-workflow-not-hired'' of
        Inl _ \<Rightarrow> False
      | Inr xs \<Rightarrow> xs \<noteq> [] \<or>
          (case find_elements a CSS_SELECTOR
                  ''.jz-tag.is-workflow-not-hired, .jz-tag[class*='workflow']'' of
             Inl _ \<Rightarrow> False
           | Inr tags \<Rightarrow> tags_not_hired tags = Inr True))"

text \<open>Both searches below \<open>a\<close> succeed and find nothing.\<close>

definition level_clear :: "elem \<Rightarrow> bool" where
  "level_clear a =
     (find_elements a CSS_SELECTOR ''.is-workflow-not-hired'' = Inr [] \<and>
      (case find_elements a CSS_SELECTOR
              ''.jz-tag.is-workflow-not-hired, .jz-tag[class*='workflow']'' of
         Inl _ \<Rightarrow> False
       | Inr tags \<Rightarrow> tags_not_hired tags = Inr False))"

text \<open>The marker is found below level \<open>i\<close>, every level before it having been searched in vain.\<close>

definition found_at :: "nat \<Rightarrow> elem \<Rightarrow> bool" where
  "found_at i e =
     ((\<forall>j<i. \<exists>b. ancestor j e = Some b \<and> level_clear b) \<and>
      (\<exists>a. ancestor i e = Some a \<and> descendant_marker a))"

definition own_class_marker :: "elem \<Rightarrow> bool" where
  "own_class_marker e =
     (\<exists>c. get_attribute e ''class'' = Inr c \<and>
        (str_in ''is-workflow-not-hired'' (or_empty c) \<or> str_in ''not-hired'' (lower (or_empty c))))"

definition parent_marker :: "elem \<Rightarrow> bool" where
  "parent_marker e =
     (\<exists>c p pc. get_attribute e ''class'' = Inr c \<and>
        find_element e XPATH ''./..'' = Inr p \<and> get_attribute p ''class'' = Inr pc \<and>
        (str_in ''is-workflow-not-hired'' (or_empty pc) \<or>
         (\<exists>tags. find_elements p CSS_SELECTOR
                    ''.is-workflow-not-hired, .jz-tag.is-workflow-not-hired'' = Inr tags \<and>
                 tags \<noteq> [])))"

subsection \<open>Example markup\<close>

text \<open>
  A table row \<open><tr class="candidate-row is-workflow-not-hired"><td><a class="candidate-link"
  href=".../candidate/7"></a></td></tr>\<close>: the link, its cell and the marked row.
\<close>

definition marked_row :: elem where
  "marked_row = Elem
     (\<lambda>a. if a = ''class'' then Inr (Some ''candidate-row is-workflow-not-hired'') else Inr None)
     (\<lambda>_ _. Inl NoSuchElementException) (\<lambda>_ _. Inr []) (Inr []) (Inr ''tr'') (Inr True) None"

definition row_cell :: elem where
  "row_cell = Elem (\<lambda>a. Inr None)
     (\<lambda>b v. if b = XPATH \<and> v = ''./..'' then Inr marked_row else Inl NoSuchElementException)
     (\<lambda>_ _. Inr []) (Inr []) (Inr ''td'') (Inr True) None"

definition row_link :: elem where
  "row_link = Elem
     (\<lambda>a. if a = ''class'' then Inr (Some ''candidate-link'')
          else if a = ''href'' then Inr (Some ''https://app.jazz.co/app/v2/job/1/candidate/7'')
          else Inr None)
     (\<lambda>b v. if b = XPATH \<and> v = ''./..'' then Inr row_cell else Inl NoSuchElementException)
     (\<lambda>_ _. Inr []) (Inr []) (Inr ''a'') (Inr True) None"

text \<open>
  A list \<open><div class="list"><div class="item"><a href=".../candidate/8"></a></div>
  <div class="item"><span class="jz-tag is-workflow-not-hired">Not Hired</span></div></div>\<close>:
  the link of candidate 8, its item, and the list, whose other item holds the tag.
\<close>

definition nh_tag :: elem where
  "nh_tag = Elem
     (\<lambda>a. if a = ''class'' then Inr (Some ''jz-tag is-workflow-not-hired'') else Inr None)
     (\<lambda>_ _. Inl NoSuchElementException) (\<lambda>_ _. Inr []) (Inr ''Not Hired'') (Inr ''span'')
     (Inr True) None"

definition list_box :: elem where
  "list_box = Elem
     (\<lambda>a. if a = ''class'' then Inr (Some ''list'') else Inr None)
     (\<lambda>_ _. Inl NoSuchElementException)
     (\<lambda>b v. if b = CSS_SELECTOR then Inr [nh_tag] else Inr [])
     (Inr ''Not Hired'') (Inr ''div'') (Inr True) None"

definition list_item :: elem where
  "list_item = Elem
     (\<lambda>a. if a = ''class'' then Inr (Some ''item'') else Inr None)
     (\<lambda>b v. if b = XPATH \<and> v = ''./..'' then Inr list_box else Inl NoSuchElementException)
     (\<lambda>_ _. Inr []) (Inr []) (Inr ''div'') (Inr True) None"

definition list_link :: elem where
  "list_link = Elem
     (\<lambda>a. if a = ''href'' then Inr (Some ''https://app.jazz.co/app/v2/job/1/candidate/8'')
          else Inr None)
     (\<lambda>b v. if b = XPATH \<and> v = ''./..'' then Inr list_item else Inl NoSuchElementException)
     (\<lambda>_ _. Inr []) (Inr []) (Inr ''a'') (Inr True) None"

section \<open>The browser, the environment and the downloader object\<close>

text \<open>
  What the driver answers about the page it shows. \<open>scroll_height\<close> is
  \<open>execute_script("return document.body.scrollHeight")\<close>; \<open>wait_presence\<close> is
  \<open>WebDriverWait(driver, 30).until(EC.presence_of_element_located(...))\<close>, which
  raises \<open>TimeoutException\<close> when nothing appears.
\<close>

record page =
  current_url :: "exn + string"
  page_find_element :: "locator \<Rightarrow> string \<Rightarrow> exn + elem"
  page_find_elements :: "locator \<Rightarrow> string \<Rightarrow> exn + elem list"
  scroll_height :: "exn + nat"
  wait_presence :: "locator \<Rightarrow> string \<Rightarrow> exn + elem"

text \<open>A directory entry; times are in milliseconds.\<close>

record dir_entry =
  file_name :: string
  is_file :: bool
  st_size :: nat
  st_mtime :: int

text \<open>A cookie is a dictionary, kept as an association list.\<close>

type_synonym cookie = "(string \<times> string) list"

text \<open>What the program does to the browser and the machine, in the order it does it.\<close>

datatype event =
    Get string
  | Sleep nat
  | Maximize
  | AddCookie string
  | ScrollBottom
  | ScrollTop
  | ScrollIntoView
  | Click
  | ScriptClick
  | WaitUntil
  | Move string
  | Quit

text \<open>
  Everything outside the program. The browser, the disk and the other thread change on
  their own, so each is a function of the number of actions the program has issued so far
  (its \<open>tick\<close>); between two actions the program sees one state. \<open>action_raises\<close> says
  whether the action issued at a tick raises. \<open>cancel_tick\<close> is the tick from which the
  \<open>cancelled\<close> attribute reads \<open>True\<close>: the server thread sets it once and never clears it.
\<close>

record world =
  env_HEADLESS :: "string option"
  env_DISPLAY :: "string option"
  chrome_starts :: "exn option"
  page_at :: "nat \<Rightarrow> page"
  action_raises :: "nat \<Rightarrow> exn option"
  output_dir_at :: "nat \<Rightarrow> dir_entry list option"
  downloads_dir_at :: "nat \<Rightarrow> dir_entry list option"
  cancel_tick :: "nat option"

text \<open>
  The \<open>JazzHRBrowserDownloader\<close> object (lines 50--60), with the clock \<open>now\<close>, the
  tick and the actions issued so far. \<open>driver\<close> is whether \<open>self.driver\<close> is set. The
  clock counts milliseconds and advances by the time slept; the other actions take no
  time on it.
\<close>

record downloader =
  job_id :: string
  cookies :: "cookie list option"
  driver :: bool
  downloaded_count :: nat
  failed_count :: nat
  downloaded_files :: "string list"
  downloaded_candidate_ids :: "string set"
  all_candidate_ids :: "string set"
  tick :: nat
  now :: int
  trace :: "event list"

definition init_downloader :: "string \<Rightarrow> cookie list option \<Rightarrow> downloader" where
  "init_downloader j cs =
     \<lparr>job_id = j, cookies = cs, driver = False, downloaded_count = 0, failed_count = 0,
      downloaded_files = [], downloaded_candidate_ids = {}, all_candidate_ids = {},
      tick = 0, now = 0, trace = []\<rparr>"

definition cancelled :: "world \<Rightarrow> downloader \<Rightarrow> bool" where
  "cancelled w s = (case cancel_tick w of None \<Rightarrow> False | Some c \<Rightarrow> c \<le> tick s)"

text \<open>
  An action on the browser or the disk: it may raise, and the world moves on. Within a run
  the driver's actions are issued only after \<open>setup_driver\<close> has succeeded, so the
  driver is in place.
\<close>

definition act :: "world \<Rightarrow> event \<Rightarrow> downloader \<Rightarrow> exn option \<times> downloader" where
  "act w ev s = (action_raises w (tick s), s\<lparr>tick := Suc (tick s), trace := trace s @ [ev]\<rparr>)"

text \<open>\<open>time.sleep\<close>, in milliseconds.\<close>

definition sleep :: "nat \<Rightarrow> downloader \<Rightarrow> downloader" where
  "sleep ms s = s\<lparr>tick := Suc (tick s), now := now s + int ms, trace := trace s @ [Sleep ms]\<rparr>"

definition cur_page :: "world \<Rightarrow> downloader \<Rightarrow> page" where
  "cur_page w s = page_at w (tick s)"

text \<open>Python's truth value of \<open>self.cookies\<close>: neither \<open>None\<close> nor the empty list.\<close>

definition cookies_given :: "downloader \<Rightarrow> bool" where
  "cookies_given s = (case cookies s of None \<Rightarrow> False | Some cs \<Rightarrow> cs \<noteq> [])"

text \<open>Lines 86 and 256.\<close>

definition use_headless :: "world \<Rightarrow> bool" where
  "use_headless w =
     (lower (case env_HEADLESS w of None \<Rightarrow> ''false'' | Some v \<Rightarrow> v) = ''true''
      \<or> env_DISPLAY w \<noteq> None)"

section \<open>\<open>check_login_required\<close>, \<open>wait_for_login\<close>, \<open>navigate_to_candidate_list\<close>, \<open>setup_driver\<close>\<close>

definition login_indicators :: "string list" where
  "login_indicators =
     [''//input[@type='email']'',
      ''//input[@type='password']'',
      ''//button[contains(text(), 'Sign in')]'',
      ''//button[contains(text(), 'Log in')]'',
      ''//a[contains(text(), 'Sign in')]'',
      ''//a[contains(text(), 'Log in')]'']"

text \<open>
  Lines 186--193. \<open>Inr True\<close>: the loop executed \<open>return True\<close>; \<open>Inr False\<close>: it ran
  to its end; \<open>Inl\<close>: an exception other than \<open>NoSuchElementException\<close> left it.
\<close>

fun indicators_loop :: "page \<Rightarrow> string list \<Rightarrow> exn + bool" where
  "indicators_loop p [] = Inr False"
| "indicators_loop p (xpath # rest) =
     (case page_find_element p XPATH xpath of
        Inl e \<Rightarrow> if e = NoSuchElementException then indicators_loop p rest else Inl e
      | Inr element \<Rightarrow>
          (case is_displayed element of
             Inl e \<Rightarrow> if e = NoSuchElementException then indicators_loop p rest else Inl e
           | Inr d \<Rightarrow> if d then Inr True else indicators_loop p rest))"

text \<open>Lines 163--197: the body of the \<open>try\<close>.\<close>

definition check_login_try :: "page \<Rightarrow> string \<Rightarrow> exn + bool" where
  "check_login_try p job =
     (case current_url p of
        Inl e \<Rightarrow> Inl e
      | Inr url \<Rightarrow>
          if str_in (''/job/'' @ job @ ''/candidate'') url then Inr False
          else if str_in ''login'' (lower url) \<or> str_in ''signin'' (lower url) then Inr True
          else indicators_loop p login_indicators)"

text \<open>Lines 162--201: with the handler of line 198, which returns \<open>False\<close>.\<close>

definition check_login_on :: "page \<Rightarrow> string \<Rightarrow> bool" where
  "check_login_on p job = (case check_login_try p job of Inl _ \<Rightarrow> False | Inr b \<Rightarrow> b)"

text \<open>
  The method on the object: without a driver, \<open>self.driver.current_url\<close> raises
  \<open>AttributeError\<close> inside the \<open>try\<close>.
\<close>

definition check_login_required :: "world \<Rightarrow> downloader \<Rightarrow> bool" where
  "check_login_required w s = (if driver s then check_login_on (cur_page w s) (job_id s) else False)"

text \<open>
  Lines 217--239, with \<open>wait_time\<close> in seconds as the argument. The loop counts the
  seconds it has slept; it does not read the clock.
\<close>

function wait_for_login_loop :: "world \<Rightarrow> nat \<Rightarrow> downloader \<Rightarrow> bool \<times> downloader" where
  "wait_for_login_loop w wait_time s =
     (if wait_time < 600 then
        (if cancelled w s then (False, s)
         else (let s1 = sleep 3000 s in
               if \<not> check_login_required w s1 then (True, sleep 3000 s1)
               else wait_for_login_loop w (wait_time + 3) s1))
      else (False, s))"
  by pat_completeness auto
termination
  by (relation "measure (\<lambda>(w, wait_time, s). 600 - wait_time)") auto

definition wait_for_login :: "world \<Rightarrow> downloader \<Rightarrow> bool \<times> downloader" where
  "wait_for_login w s = wait_for_login_loop w 0 s"

definition candidate_list_url :: "string \<Rightarrow> string" where
  "candidate_list_url job = ''https://app.jazz.co/app/v2/job/'' @ job @ ''/candidate?workflowStep=1''"

text \<open>\<open>self.driver.get(url)\<close> followed by \<open>time.sleep(5)\<close>.\<close>

definition get_and_settle :: "world \<Rightarrow> string \<Rightarrow> downloader \<Rightarrow> (exn + unit) \<times> downloader" where
  "get_and_settle w url s =
     (case act w (Get url) s of
        (Some e, s1) \<Rightarrow> (Inl e, s1)
      | (None, s1) \<Rightarrow> (Inr (), sleep 5000 s1))"

text \<open>Lines 284--292: the navigation after login and its check.\<close>

definition navigate_after_login :: "world \<Rightarrow> string \<Rightarrow> downloader \<Rightarrow> (exn + unit) \<times> downloader" where
  "navigate_after_login w url s =
     (case get_and_settle w url s of
        (Inl e, s1) \<Rightarrow> (Inl e, s1)
      | (Inr _, s1) \<Rightarrow>
          if check_login_required w s1 then (Inl (PyException ''Login verification failed''), s1)
          else (Inr (), s1))"

text \<open>Lines 254--292: the branch taken when login is required.\<close>

definition handle_login_required :: "world \<Rightarrow> string \<Rightarrow> downloader \<Rightarrow> (exn + unit) \<times> downloader" where
  "handle_login_required w url s =
     (if use_headless w \<and> \<not> cookies_given s
      then (Inl (PyException ''Login required but no cookies provided for headless mode''), s)
      else if \<not> use_headless w then
        (case wait_for_login w s of
           (False, s1) \<Rightarrow> (Inl (PyException ''Login failed or timed out''), s1)
         | (True, s1) \<Rightarrow> navigate_after_login w url s1)
      else
        (case get_and_settle w url s of
           (Inl e, s1) \<Rightarrow> (Inl e, s1)
         | (Inr _, s1) \<Rightarrow>
             if check_login_required w s1
             then (Inl (PyException ''Authentication failed: Invalid or expired cookies''), s1)
             else navigate_after_login w url s1))"

definition navigate_to_candidate_list :: "world \<Rightarrow> downloader \<Rightarrow> (exn + unit) \<times> downloader" where
  "navigate_to_candidate_list w s =
     (if \<not> driver s then (Inl AttributeError, s)
      else (case get_and_settle w (candidate_list_url (job_id s)) s of
        (Inl e, s1) \<Rightarrow> (Inl e, s1)
      | (Inr _, s1) \<Rightarrow>
          if check_login_required w s1
          then handle_login_required w (candidate_list_url (job_id s)) s1
          else (Inr (), s1)))"

text \<open>
  Lines 127--148: one \<open>add_cookie\<close> for each cookie with a name and a value; a failure
  is logged and the loop continues.
\<close>

fun add_cookies :: "world \<Rightarrow> cookie list \<Rightarrow> downloader \<Rightarrow> downloader" where
  "add_cookies w [] s = s"
| "add_cookies w (c # cs) s =
     (case (map_of c ''name'', map_of c ''value'') of
        (Some n, Some v) \<Rightarrow> add_cookies w cs (snd (act w (AddCookie n) s))
      | _ \<Rightarrow> add_cookies w cs s)"

text \<open>Lines 115--153.\<close>

definition load_cookies :: "world \<Rightarrow> downloader \<Rightarrow> (exn + unit) \<times> downloader" where
  "load_cookies w s =
     (case cookies s of
        None \<Rightarrow> (Inr (), s)
      | Some cs \<Rightarrow>
          if cs = [] then (Inr (), s)
          else (case act w (Get ''https://app.jazz.co'') s of
                  (Some e, s1) \<Rightarrow> (Inl e, s1)
                | (None, s1) \<Rightarrow> (Inr (), add_cookies w cs (sleep 2000 s1))))"

text \<open>
  Lines 102--113: starting Chrome may raise, and then \<open>self.driver\<close> stays \<open>None\<close>;
  afterwards the window is maximised and the cookies are loaded, and an exception of
  either is raised again with the driver in place.
\<close>

definition setup_driver :: "world \<Rightarrow> downloader \<Rightarrow> (exn + unit) \<times> downloader" where
  "setup_driver w s =
     (case chrome_starts w of
        Some e \<Rightarrow> (Inl e, s)
      | None \<Rightarrow>
          (case act w Maximize (s\<lparr>driver := True\<rparr>) of
             (Some e, s1) \<Rightarrow> (Inl e, s1)
           | (None, s1) \<Rightarrow> if cookies_given s1 then load_cookies w s1 else (Inr (), s1)))"

subsection \<open>What can go wrong while the login state is classified\<close>

text \<open>The indicator is passed over: it is absent, or present and not displayed.\<close>

definition indicator_skipped :: "page \<Rightarrow> string \<Rightarrow> bool" where
  "indicator_skipped p x =
     (page_find_element p XPATH x = Inl NoSuchElementException \<or>
      (\<exists>el. page_find_element p XPATH x = Inr el \<and>
         (is_displayed el = Inr False \<or> is_displayed el = Inl NoSuchElementException)))"

text \<open>Looking the indicator up, or asking whether it is displayed, raises \<open>e\<close>.\<close>

definition indicator_raises :: "page \<Rightarrow> string \<Rightarrow> exn \<Rightarrow> bool" where
  "indicator_raises p x e =
     (e \<noteq> NoSuchElementException \<and>
      (page_find_element p XPATH x = Inl e \<or>
       (\<exists>el. page_find_element p XPATH x = Inr el \<and> is_displayed el = Inl e)))"

text \<open>
  An exception \<open>e\<close> is raised while the page is classified: reading the URL raises, or
  the URL decides nothing and the first indicator that is not passed over raises.
\<close>

definition classification_raises :: "page \<Rightarrow> string \<Rightarrow> exn \<Rightarrow> bool" where
  "classification_raises p job e =
     (current_url p = Inl e \<or>
      (\<exists>url. current_url p = Inr url \<and>
         \<not> str_in (''/job/'' @ job @ ''/candidate'') url \<and>
         \<not> str_in ''login'' (lower url) \<and> \<not> str_in ''signin'' (lower url) \<and>
         (\<exists>i<length login_indicators.
            (\<forall>k<i. indicator_skipped p (login_indicators ! k)) \<and>
            indicator_raises p (login_indicators ! i) e)))"

text \<open>A page on which every element lookup fails in the driver.\<close>

definition broken_page :: page where
  "broken_page =
     \<lparr>current_url = Inr ''https://app.jazz.co/app/v2/dashboard'',
      page_find_element = (\<lambda>_ _. Inl WebDriverException),
      page_find_elements = (\<lambda>_ _. Inl WebDriverException),
      scroll_height = Inl WebDriverException,
      wait_presence = (\<lambda>_ _. Inl WebDriverException)\<rparr>"

definition quiet_world :: "page \<Rightarrow> world" where
  "quiet_world p =
     \<lparr>env_HEADLESS = None, env_DISPLAY = None, chrome_starts = None, page_at = (\<lambda>_. p),
      action_raises = (\<lambda>_. None), output_dir_at = (\<lambda>_. Some []),
      downloads_dir_at = (\<lambda>_. None), cancel_tick = None\<rparr>"

section \<open>\<open>scroll_to_load_all_candidates\<close>\<close>

text \<open>
  Lines 305--327, with \<open>scroll_attempts\<close>, \<open>no_change_count\<close> and \<open>last_height\<close> as
  arguments. \<open>Inr True\<close>: the loop executed \<open>return\<close> (cancellation); \<open>Inr False\<close>: it
  ended by \<open>break\<close> or by its condition; \<open>Inl\<close>: a script raised.
\<close>

function scroll_loop ::
  "world \<Rightarrow> nat \<Rightarrow> nat \<Rightarrow> nat \<Rightarrow> downloader \<Rightarrow> (exn + bool) \<times> downloader" where
  "scroll_loop w scroll_attempts no_change_count last_height s =
     (if scroll_attempts < 50 then
        (if cancelled w s then (Inr True, s)
         else (case act w ScrollBottom s of
                 (Some e, s1) \<Rightarrow> (Inl e, s1)
               | (None, s1) \<Rightarrow>
                   (case scroll_height (cur_page w (sleep 2000 s1)) of
                      Inl e \<Rightarrow> (Inl e, sleep 2000 s1)
                    | Inr new_height \<Rightarrow>
                        if new_height = last_height then
                          (if no_change_count + 1 \<ge> 3 then (Inr False, sleep 2000 s1)
                           else scroll_loop w (scroll_attempts + 1) (no_change_count + 1)
                                  new_height (sleep 2000 s1))
                        else scroll_loop w (scroll_attempts + 1) 0 new_height (sleep 2000 s1))))
      else (Inr False, s))"
  by pat_completeness auto
termination
  by (relation "measure (\<lambda>(w, scroll_attempts, n, h, s). 50 - scroll_attempts)") auto

text \<open>Lines 296--333. Without a driver the first script raises \<open>AttributeError\<close>.\<close>

definition scroll_to_load_all_candidates :: "world \<Rightarrow> downloader \<Rightarrow> (exn + unit) \<times> downloader" where
  "scroll_to_load_all_candidates w s =
     (if \<not> driver s then (Inl AttributeError, s)
      else (case scroll_height (cur_page w s) of
        Inl e \<Rightarrow> (Inl e, s)
      | Inr last_height \<Rightarrow>
          (case scroll_loop w 0 0 last_height s of
             (Inl e, s1) \<Rightarrow> (Inl e, s1)
           | (Inr True, s1) \<Rightarrow> (Inr (), s1)
           | (Inr False, s1) \<Rightarrow>
               (case act w ScrollTop s1 of
                  (Some e, s2) \<Rightarrow> (Inl e, s2)
                | (None, s2) \<Rightarrow> (Inr (), sleep 1000 s2)))))"

text \<open>The state after one scroll to the bottom and its settle interval.\<close>

definition after_scroll :: "downloader \<Rightarrow> downloader" where
  "after_scroll s = sleep 2000 (s\<lparr>tick := Suc (tick s), trace := trace s @ [ScrollBottom]\<rparr>)"

text \<open>The number of times the page was scrolled to its bottom.\<close>

definition scrolls :: "event list \<Rightarrow> nat" where
  "scrolls t = length (filter (\<lambda>e. e = ScrollBottom) t)"

section \<open>\<open>get_candidate_links\<close>\<close>

definition selectors :: "string list" where
  "selectors =
     [''a[href*='/candidate/']'',
      ''a[href*='/applicant/']'',
      ''.candidate-link'',
      ''.applicant-link'',
      ''[data-candidate-id]'',
      ''tr[data-candidate-id] a'',
      ''.candidate-row a'',
      ''.applicant-row a'']"

text \<open>
  Lines 433--443: the selectors in order; the first one that finds anything supplies
  \<open>candidate_elements\<close> and ends the loop; a selector that raises is passed over.
\<close>

fun first_matching :: "page \<Rightarrow> string list \<Rightarrow> elem list" where
  "first_matching p [] = []"
| "first_matching p (selector # rest) =
     (case page_find_elements p CSS_SELECTOR selector of
        Inl _ \<Rightarrow> first_matching p rest
      | Inr elements \<Rightarrow> if elements \<noteq> [] then elements else first_matching p rest)"

text \<open>Python's truth value of an attribute: present and not empty.\<close>

definition truthy :: "string option \<Rightarrow> bool" where
  "truthy v = (case v of None \<Rightarrow> False | Some x \<Rightarrow> x \<noteq> [])"

text \<open>
  Lines 450--458: the rows, with \<open>candidate_elements\<close> as accumulator. An exception of
  \<open>get_attribute\<close> leaves the loop for the handler of line 459, which keeps what was
  appended so far.
\<close>

fun rows_loop :: "elem list \<Rightarrow> elem list \<Rightarrow> elem list" where
  "rows_loop [] acc = acc"
| "rows_loop (row # rows) acc =
     (case find_element row TAG_NAME ''a'' of
        Inr link \<Rightarrow> rows_loop rows (acc @ [link])
      | Inl _ \<Rightarrow>
          (case get_attribute row ''onclick'' of
             Inl _ \<Rightarrow> acc
           | Inr oc \<Rightarrow>
               if truthy oc then rows_loop rows (acc @ [row])
               else (case get_attribute row ''data-href'' of
                       Inl _ \<Rightarrow> acc
                     | Inr dh \<Rightarrow>
                         if truthy dh then rows_loop rows (acc @ [row])
                         else rows_loop rows acc)))"

text \<open>Lines 433--460.\<close>

definition candidate_elements :: "page \<Rightarrow> elem list" where
  "candidate_elements p =
     (if first_matching p selectors \<noteq> [] then first_matching p selectors
      else (case page_find_elements p CSS_SELECTOR ''tr, .candidate-row, .applicant-row'' of
              Inl _ \<Rightarrow> []
            | Inr rows \<Rightarrow> rows_loop rows []))"

text \<open>
  Lines 469--506, with \<open>candidate_dict\<close> as an association list in insertion order
  (candidate id, href). Every \<open>continue\<close> goes on with the dictionary unchanged.
\<close>

fun process_elements :: "elem list \<Rightarrow> (string \<times> string) list \<Rightarrow> (string \<times> string) list" where
  "process_elements [] candidate_dict = candidate_dict"
| "process_elements (elem # rest) candidate_dict =
     (case get_attribute elem ''href'' of
        Inl _ \<Rightarrow> process_elements rest candidate_dict
      | Inr None \<Rightarrow> process_elements rest candidate_dict
      | Inr (Some href) \<Rightarrow>
          if href = [] \<or> (\<not> str_in ''candidate'' href \<and> \<not> str_in ''applicant'' href)
          then process_elements rest candidate_dict
          else (case search_candidate_id href of
                  None \<Rightarrow> process_elements rest candidate_dict
                | Some candidate_id \<Rightarrow>
                    if candidate_id \<in> fst ` set candidate_dict
                    then process_elements rest candidate_dict
                    else if is_candidate_not_hired elem
                    then process_elements rest candidate_dict
                    else process_elements rest (candidate_dict @ [(candidate_id, href)])))"

definition profile_url :: "string \<Rightarrow> string \<Rightarrow> string" where
  "profile_url job candidate_id =
     ''https://app.jazz.co/app/v2/job/'' @ job @ ''/candidate/'' @ candidate_id @ ''/profile''"

text \<open>Lines 517--530, for one link.\<close>

definition normalize_link :: "string \<Rightarrow> string \<Rightarrow> string" where
  "normalize_link job link =
     (if startswith link ''http''
      then (case search_candidate_id link of
              Some candidate_id \<Rightarrow> profile_url job candidate_id
            | None \<Rightarrow> link)
      else link)"

text \<open>Lines 466--530: from the candidate elements to the normalised links.\<close>

definition links_of_elements :: "string \<Rightarrow> elem list \<Rightarrow> string list" where
  "links_of_elements job els = map (normalize_link job) (map snd (process_elements els []))"

text \<open>
  Lines 411--541. An exception of the scrolling reaches the handler of line 539, which
  returns the empty list and leaves \<open>all_candidate_ids\<close> as it was.
\<close>

definition get_candidate_links :: "world \<Rightarrow> downloader \<Rightarrow> string list \<times> downloader" where
  "get_candidate_links w s =
     (case scroll_to_load_all_candidates w (sleep 3000 s) of
        (Inl _, s1) \<Rightarrow> ([], s1)
      | (Inr _, s1) \<Rightarrow>
          (links_of_elements (job_id s1) (candidate_elements (cur_page w s1)),
           s1\<lparr>all_candidate_ids :=
                 set (map fst (process_elements (candidate_elements (cur_page w s1)) []))\<rparr>))"

subsection \<open>Example pages\<close>

text \<open>A link to candidate 7 with no marker anywhere near it.\<close>

definition free_link :: elem where
  "free_link = Elem
     (\<lambda>a. if a = ''href'' then Inr (Some ''https://app.jazz.co/app/v2/job/1/candidate/7'')
          else Inr None)
     (\<lambda>_ _. Inl NoSuchElementException) (\<lambda>_ _. Inr []) (Inr ''Ada'') (Inr ''a'') (Inr True) None"

text \<open>A candidate list of height 100 on which only the first selector finds the link.\<close>

definition list_page :: page where
  "list_page =
     \<lparr>current_url = Inr ''https://app.jazz.co/app/v2/job/1/candidate?workflowStep=1'',
      page_find_element = (\<lambda>_ _. Inl NoSuchElementException),
      page_find_elements =
        (\<lambda>b v. if b = CSS_SELECTOR \<and> v = ''a[href*='/candidate/']'' then Inr [free_link] else Inr []),
      scroll_height = Inr 100,
      wait_presence = (\<lambda>_ _. Inl TimeoutException)\<rparr>"



subsection \<open>Auxiliary notions for the enumeration\<close>

text \<open>The selector finds nothing on the page, or raises.\<close>

definition no_match :: "page \<Rightarrow> string \<Rightarrow> bool" where
  "no_match p selector =
     (case page_find_elements p CSS_SELECTOR selector of Inl _ \<Rightarrow> True | Inr xs \<Rightarrow> xs = [])"

text \<open>
  What one element contributes: its candidate id and href, when the href can be read,
  names a candidate and the element is not marked as not hired.
\<close>

definition candidate_key :: "elem \<Rightarrow> (string \<times> string) option" where
  "candidate_key elem =
     (case get_attribute elem ''href'' of
        Inl _ \<Rightarrow> None
      | Inr None \<Rightarrow> None
      | Inr (Some href) \<Rightarrow>
          if href = [] \<or> (\<not> str_in ''candidate'' href \<and> \<not> str_in ''applicant'' href) then None
          else (case search_candidate_id href of
                  None \<Rightarrow> None
                | Some candidate_id \<Rightarrow>
                    if is_candidate_not_hired elem then None else Some (candidate_id, href)))"

text \<open>A page on which the third and the seventh selector find different links.\<close>

definition third_selector_page :: page where
  "third_selector_page =
     \<lparr>current_url = Inr ''https://app.jazz.co/app/v2/job/1/candidate?workflowStep=1'',
      page_find_element = (\<lambda>_ _. Inl NoSuchElementException),
      page_find_elements =
        (\<lambda>b v. if b = CSS_SELECTOR \<and> v = ''.candidate-link'' then Inr [free_link]
               else if b = CSS_SELECTOR \<and> v = ''.candidate-row a'' then Inr [row_link]
               else Inr []),
      scroll_height = Inr 100,
      wait_presence = (\<lambda>_ _. Inl TimeoutException)\<rparr>"


section \<open>\<open>verify_download\<close>\<close>

text \<open>Lines 543--553, as a function of the tick at which the directory is listed.\<close>

definition visible_files :: "world \<Rightarrow> nat \<Rightarrow> dir_entry list" where
  "visible_files w t =
     (case output_dir_at w t of
        None \<Rightarrow> []
      | Some fs \<Rightarrow> filter (\<lambda>f. is_file f \<and> \<not> startswith (file_name f) ''.'') fs)"

definition get_downloaded_files :: "world \<Rightarrow> downloader \<Rightarrow> dir_entry list" where
  "get_downloaded_files w s = visible_files w (tick s)"

text \<open>
  Lines 555--578: the entries of \<open>~/Downloads\<close> matching \<open>*.pdf\<close> and modified less
  than 120 seconds before the given time.
\<close>

definition recent_pdfs :: "world \<Rightarrow> nat \<Rightarrow> int \<Rightarrow> dir_entry list" where
  "recent_pdfs w t current_time =
     (case downloads_dir_at w t of
        None \<Rightarrow> []
      | Some fs \<Rightarrow>
          filter (\<lambda>f. endswith (file_name f) ''.pdf'' \<and> current_time - st_mtime f < 120000) fs)"

definition check_chrome_downloads_folder :: "world \<Rightarrow> downloader \<Rightarrow> dir_entry list" where
  "check_chrome_downloads_folder w s = recent_pdfs w (tick s) (now s)"

text \<open>Line 599: the paths listed now that were not in the first listing.\<close>

definition new_files :: "dir_entry list \<Rightarrow> dir_entry list \<Rightarrow> dir_entry list" where
  "new_files initial_files current_files =
     filter (\<lambda>f. file_name f \<notin> file_name ` set initial_files) current_files"

text \<open>
  Lines 597--613, with the defaults \<open>wait_time = 10\<close> and \<open>check_interval = 0.5\<close> of
  the only call. The result is the first new file of non-zero size, if one was seen.
\<close>

function poll_loop ::
  "world \<Rightarrow> dir_entry list \<Rightarrow> int \<Rightarrow> downloader \<Rightarrow> dir_entry option \<times> downloader" where
  "poll_loop w initial_files start_time s =
     (if now s - start_time < 10000 then
        (case find (\<lambda>f. 0 < st_size f) (new_files initial_files (get_downloaded_files w s)) of
           Some f \<Rightarrow> (Some f, s)
         | None \<Rightarrow> poll_loop w initial_files start_time (sleep 500 s))
      else (None, s))"
  by pat_completeness auto
termination
  by (relation "measure (\<lambda>(w, i, start_time, s). nat (start_time + 10000 - now s))")
     (auto simp: sleep_def)

text \<open>
  Line 620: the first entry of the list sorted by modification time, newest first. The
  sort is stable, so among the newest the one listed first is taken.
\<close>

fun newest :: "dir_entry list \<Rightarrow> dir_entry option" where
  "newest [] = None"
| "newest (f # fs) =
     (case newest fs of
        None \<Rightarrow> Some f
      | Some g \<Rightarrow> if st_mtime f < st_mtime g then Some g else Some f)"

text \<open>Lines 616--627: the check by file count, at the tick it is made.\<close>

definition recheck_by_count :: "world \<Rightarrow> nat \<Rightarrow> nat \<Rightarrow> dir_entry option" where
  "recheck_by_count w initial_count t =
     (if initial_count < length (visible_files w t) then
        (case newest (visible_files w t) of
           None \<Rightarrow> None
         | Some f \<Rightarrow> if 0 < st_size f then Some f else None)
      else None)"

text \<open>Lines 630--646: the first recent PDF is moved; a failing move is logged.\<close>

definition chrome_fallback :: "world \<Rightarrow> downloader \<Rightarrow> string option \<times> downloader" where
  "chrome_fallback w s =
     (case check_chrome_downloads_folder w s of
        [] \<Rightarrow> (None, s)
      | target_file # _ \<Rightarrow>
          (case act w (Move (file_name target_file)) s of
             (Some e, s1) \<Rightarrow> (None, s1)
           | (None, s1) \<Rightarrow> (Some (file_name target_file), s1)))"

definition record_file :: "string \<Rightarrow> downloader \<Rightarrow> downloader" where
  "record_file n s = s\<lparr>downloaded_files := downloaded_files s @ [n]\<rparr>"

text \<open>Lines 580--649. The first listing is a set of paths, counted without repetition.\<close>

definition verify_download :: "world \<Rightarrow> downloader \<Rightarrow> bool \<times> downloader" where
  "verify_download w s =
     (case poll_loop w (get_downloaded_files w s) (now s) s of
        (Some f, s1) \<Rightarrow> (True, record_file (file_name f) s1)
      | (None, s1) \<Rightarrow>
          (case recheck_by_count w
                  (length (remdups (map file_name (get_downloaded_files w s)))) (tick s1) of
             Some f \<Rightarrow> (True, record_file (file_name f) s1)
           | None \<Rightarrow>
               (case chrome_fallback w s1 of
                  (Some n, s2) \<Rightarrow> (True, record_file n s2)
                | (None, s2) \<Rightarrow> (False, s2))))"

section \<open>\<open>download_resume_from_profile\<close>\<close>

text \<open>
  The argument is a profile URL or, as the code also allows, a \<open>WebElement\<close>.
  \<open>get_candidate_links\<close> returns strings only.
\<close>

datatype candidate = Link string | Row elem

text \<open>\<open>element.click()\<close>: the element may refuse, or the browser may raise.\<close>

definition click_element :: "world \<Rightarrow> elem \<Rightarrow> downloader \<Rightarrow> exn option \<times> downloader" where
  "click_element w el s =
     (case click el of
        Some e \<Rightarrow> (Some e, s\<lparr>tick := Suc (tick s), trace := trace s @ [Click]\<rparr>)
      | None \<Rightarrow> act w Click s)"

text \<open>
  Lines 672--689, the \<open>try\<close> of the element branch: whether \<open>import re\<close> of line
  678 was executed, the exception that ended the block if any, and the state.
\<close>

definition open_row_try :: "world \<Rightarrow> elem \<Rightarrow> downloader \<Rightarrow> bool \<times> exn option \<times> downloader" where
  "open_row_try w el s =
     (case get_attribute el ''href'' of
        Inl e \<Rightarrow> (False, Some e, s)
      | Inr href \<Rightarrow>
          if truthy href then
            (case search_candidate_id (or_empty href) of
               Some candidate_id \<Rightarrow>
                 (case act w (Get (profile_url (job_id s) candidate_id)) s of
                    (r, s1) \<Rightarrow> (True, r, s1))
             | None \<Rightarrow> (case click_element w el s of (r, s1) \<Rightarrow> (True, r, s1)))
          else (case click_element w el s of (r, s1) \<Rightarrow> (False, r, s1)))"

text \<open>
  Lines 663--692. The function contains \<open>import re\<close> (line 678), so \<open>re\<close> is a local
  name of the whole function, unbound until that line has run; the result says whether it
  is bound. For a URL line 678 never runs: a URL that does not end in \<open>/profile\<close> raises
  \<open>UnboundLocalError\<close> at line 667, and a string that does not start with \<open>http\<close> has no
  \<open>click\<close>, which raises \<open>AttributeError\<close> in the \<open>try\<close> and again in its handler.
\<close>

definition open_profile :: "world \<Rightarrow> candidate \<Rightarrow> downloader \<Rightarrow> (exn + bool) \<times> downloader" where
  "open_profile w c s =
     (case c of
        Link candidate_url \<Rightarrow>
          if startswith candidate_url ''http'' then
            (if \<not> endswith candidate_url ''/profile'' then (Inl UnboundLocalError, s)
             else (case act w (Get candidate_url) s of
                     (Some e, s1) \<Rightarrow> (Inl e, s1)
                   | (None, s1) \<Rightarrow> (Inr False, s1)))
          else (Inl AttributeError, s)
      | Row el \<Rightarrow>
          (case open_row_try w el s of
             (re_bound, None, s1) \<Rightarrow> (Inr re_bound, s1)
           | (re_bound, Some _, s1) \<Rightarrow>
               (case click_element w el s1 of
                  (Some e, s2) \<Rightarrow> (Inl e, s2)
                | (None, s2) \<Rightarrow> (Inr re_bound, s2))))"

text \<open>Where the document link is searched: below an element, or in the whole page.\<close>

datatype search_ctx = InElem elem | InDriver

definition ctx_find_elements :: "page \<Rightarrow> search_ctx \<Rightarrow> locator \<Rightarrow> string \<Rightarrow> exn + elem list" where
  "ctx_find_elements p ctx b v =
     (case ctx of InElem e \<Rightarrow> find_elements e b v | InDriver \<Rightarrow> page_find_elements p b v)"

definition ctx_find_element :: "page \<Rightarrow> search_ctx \<Rightarrow> locator \<Rightarrow> string \<Rightarrow> exn + elem" where
  "ctx_find_element p ctx b v =
     (case ctx of InElem e \<Rightarrow> find_element e b v | InDriver \<Rightarrow> page_find_element p b v)"

definition waited :: "downloader \<Rightarrow> downloader" where
  "waited s = s\<lparr>tick := Suc (tick s), trace := trace s @ [WaitUntil]\<rparr>"

text \<open>Lines 705--717; an exception other than \<open>TimeoutException\<close> leaves the block.\<close>

definition find_documents_section :: "world \<Rightarrow> downloader \<Rightarrow> (exn + search_ctx) \<times> downloader" where
  "find_documents_section w s =
     (case wait_presence (cur_page w s) XPATH
             ''//div[contains(@class, 'jz-sidebar-block') and contains(., 'Documents')]'' of
        Inr e \<Rightarrow> (Inr (InElem e), waited s)
      | Inl x \<Rightarrow>
          if x \<noteq> TimeoutException then (Inl x, waited s)
          else (case wait_presence (cur_page w (waited s)) CSS_SELECTOR ''.jz-sidebar-block'' of
                  Inr e \<Rightarrow> (Inr (InElem e), waited (waited s))
                | Inl y \<Rightarrow>
                    if y \<noteq> TimeoutException then (Inl y, waited (waited s))
                    else (Inr InDriver, waited (waited s))))"

text \<open>Lines 745--755: the nearest enclosing link of an element with "download" text.\<close>

fun link_ancestor_loop :: "elem list \<Rightarrow> exn + elem option" where
  "link_ancestor_loop [] = Inr None"
| "link_ancestor_loop (elem # rest) =
     (case find_element elem XPATH ''./ancestor::a[1]'' of
        Inr file_element \<Rightarrow> Inr (Some file_element)
      | Inl e \<Rightarrow>
          if e \<noteq> NoSuchElementException then Inl e
          else (case tag_name elem of
                  Inl e' \<Rightarrow> Inl e'
                | Inr t \<Rightarrow> if t = ''a'' then Inr (Some elem) else link_ancestor_loop rest))"

text \<open>Lines 769--782: the link inside a document card.\<close>

definition card_link :: "elem \<Rightarrow> exn + elem option" where
  "card_link first_card =
     (case find_element first_card CSS_SELECTOR ''a.jz-document-card-name'' of
        Inr fe \<Rightarrow> Inr (Some fe)
      | Inl e \<Rightarrow>
          if e \<noteq> NoSuchElementException then Inl e
          else (case find_element first_card CSS_SELECTOR ''a[download], a[href*='download']'' of
                  Inr fe \<Rightarrow> Inr (Some fe)
                | Inl e \<Rightarrow>
                    if e \<noteq> NoSuchElementException then Inl e
                    else (case find_element first_card CSS_SELECTOR ''a'' of
                            Inr fe \<Rightarrow> Inr (Some fe)
                          | Inl e \<Rightarrow> if e \<noteq> NoSuchElementException then Inl e else Inr None)))"

text \<open>Lines 759--790: methods 4 and 5.\<close>

definition locate_by_card :: "page \<Rightarrow> search_ctx \<Rightarrow> exn + elem option" where
  "locate_by_card p ctx =
     (case ctx_find_elements p ctx CSS_SELECTOR ''.jz-document-card-meta.jz-horizontal-list'' of
        Inl e \<Rightarrow> Inl e
      | Inr cards1 \<Rightarrow>
          (case (if cards1 = []
                 then ctx_find_elements p ctx XPATH
                        ''.//*[contains(@class, 'jz-document-card-meta') and contains(@class, 'jz-horizontal-list')]''
                 else Inr cards1) of
             Inl e \<Rightarrow> Inl e
           | Inr document_cards \<Rightarrow>
               (case (case document_cards of [] \<Rightarrow> Inr None | first_card # _ \<Rightarrow> card_link first_card) of
                  Inl e \<Rightarrow> Inl e
                | Inr (Some fe) \<Rightarrow> Inr (Some fe)
                | Inr None \<Rightarrow>
                    (case ctx_find_element p ctx CSS_SELECTOR ''a.jz-document-card-name'' of
                       Inr fe \<Rightarrow> Inr (Some fe)
                     | Inl e \<Rightarrow> if e \<noteq> NoSuchElementException then Inl e else Inr None))))"

text \<open>Lines 725--793, the body of the \<open>try\<close>: methods 1 to 5 in order.\<close>

definition locate_primary :: "page \<Rightarrow> search_ctx \<Rightarrow> exn + elem option" where
  "locate_primary p ctx =
     (case ctx_find_elements p ctx CSS_SELECTOR ''a[download]'' of
        Inl e \<Rightarrow> Inl e
      | Inr (fe # _) \<Rightarrow> Inr (Some fe)
      | Inr [] \<Rightarrow>
          (case ctx_find_elements p ctx XPATH ''.//a[contains(@href, 'download')]'' of
             Inl e \<Rightarrow> Inl e
           | Inr (fe # _) \<Rightarrow> Inr (Some fe)
           | Inr [] \<Rightarrow>
               (case ctx_find_elements p ctx XPATH
                       ''.//*[contains(translate(text(), 'DOWNLOAD', 'download'), 'download')]'' of
                  Inl e \<Rightarrow> Inl e
                | Inr text_download_elements \<Rightarrow>
                    (case link_ancestor_loop text_download_elements of
                       Inl e \<Rightarrow> Inl e
                     | Inr (Some fe) \<Rightarrow> Inr (Some fe)
                     | Inr None \<Rightarrow> locate_by_card p ctx))))"

text \<open>
  Lines 796--815: the file icon. Once the icon is assigned, an exception while looking
  for its link leaves the icon as the element to click.
\<close>

definition locate_icon :: "page \<Rightarrow> search_ctx \<Rightarrow> elem option" where
  "locate_icon p ctx =
     (case ctx_find_elements p ctx CSS_SELECTOR ''i.fa.fa-file'' of
        Inl _ \<Rightarrow> None
      | Inr [] \<Rightarrow> None
      | Inr (icon # _) \<Rightarrow>
          (case find_element icon XPATH ''./ancestor::a[1]'' of
             Inr file_link \<Rightarrow> Some file_link
           | Inl e \<Rightarrow>
               if e \<noteq> NoSuchElementException then Some icon
               else (case find_element icon XPATH ''./parent::a'' of
                       Inr file_link \<Rightarrow> Some file_link
                     | Inl _ \<Rightarrow> Some icon)))"

text \<open>Lines 818--824.\<close>

definition locate_last_resort :: "page \<Rightarrow> search_ctx \<Rightarrow> elem option" where
  "locate_last_resort p ctx =
     (case ctx_find_elements p ctx CSS_SELECTOR
             ''a[href*='download'], a[href*='file'], a[href*='document']'' of
        Inl _ \<Rightarrow> None
      | Inr [] \<Rightarrow> None
      | Inr (fe # _) \<Rightarrow> Some fe)"

text \<open>Lines 720--824: an exception of the primary methods is logged and \<open>file_element\<close> stays \<open>None\<close>.\<close>

definition locate_file_element :: "page \<Rightarrow> search_ctx \<Rightarrow> elem option" where
  "locate_file_element p ctx =
     (case (case locate_primary p ctx of Inl _ \<Rightarrow> None | Inr r \<Rightarrow> r) of
        Some fe \<Rightarrow> Some fe
      | None \<Rightarrow>
          (case locate_icon p ctx of
             Some fe \<Rightarrow> Some fe
           | None \<Rightarrow> locate_last_resort p ctx))"

text \<open>Lines 830--838: scroll into view, pause, click; a failing click is retried by script.\<close>

definition trigger :: "world \<Rightarrow> elem \<Rightarrow> downloader \<Rightarrow> exn option \<times> downloader" where
  "trigger w file_element s =
     (case act w ScrollIntoView s of
        (Some e, s1) \<Rightarrow> (Some e, s1)
      | (None, s1) \<Rightarrow>
          (case click_element w file_element (sleep 1000 s1) of
             (None, s2) \<Rightarrow> (None, s2)
           | (Some _, s2) \<Rightarrow> act w ScriptClick s2))"

text \<open>
  Lines 843--847. For a string the lookup of \<open>re\<close> comes first, and raises
  \<open>UnboundLocalError\<close> when line 678 has not run.
\<close>

definition tracked_candidate_id :: "candidate \<Rightarrow> bool \<Rightarrow> exn + string option" where
  "tracked_candidate_id c re_bound =
     (case c of
        Link candidate_url \<Rightarrow>
          if re_bound then Inr (search_candidate_id candidate_url) else Inl UnboundLocalError
      | Row _ \<Rightarrow> Inr None)"

definition count_failed :: "downloader \<Rightarrow> downloader" where
  "count_failed s = s\<lparr>failed_count := failed_count s + 1\<rparr>"

text \<open>Lines 850--855.\<close>

definition count_downloaded :: "string option \<Rightarrow> downloader \<Rightarrow> downloader" where
  "count_downloaded candidate_id s =
     (case candidate_id of
        None \<Rightarrow> s\<lparr>downloaded_count := downloaded_count s + 1\<rparr>
      | Some i \<Rightarrow> s\<lparr>downloaded_count := downloaded_count s + 1,
                    downloaded_candidate_ids := insert i (downloaded_candidate_ids s)\<rparr>)"

text \<open>Lines 826--859, once the element to click is known.\<close>

definition click_and_verify ::
  "world \<Rightarrow> candidate \<Rightarrow> bool \<Rightarrow> elem \<Rightarrow> downloader \<Rightarrow> bool \<times> downloader" where
  "click_and_verify w c re_bound file_element s =
     (case trigger w file_element s of
        (Some _, s1) \<Rightarrow> (False, count_failed s1)
      | (None, s1) \<Rightarrow>
          (case tracked_candidate_id c re_bound of
             Inl _ \<Rightarrow> (False, count_failed s1)
           | Inr candidate_id \<Rightarrow>
               (case verify_download w s1 of
                  (True, s2) \<Rightarrow> (True, count_downloaded candidate_id s2)
                | (False, s2) \<Rightarrow> (False, count_failed s2))))"

text \<open>
  Lines 651--883. Every exception ends in one of the handlers of lines 871, 875 and
  880, each of which counts a failure and returns \<open>False\<close>.
\<close>

definition download_resume_from_profile :: "world \<Rightarrow> candidate \<Rightarrow> downloader \<Rightarrow> bool \<times> downloader" where
  "download_resume_from_profile w c s =
     (case open_profile w c s of
        (Inl _, s1) \<Rightarrow> (False, count_failed s1)
      | (Inr re_bound, s1) \<Rightarrow>
          (case find_documents_section w (sleep 3000 s1) of
             (Inl _, s2) \<Rightarrow> (False, count_failed s2)
           | (Inr documents_section, s2) \<Rightarrow>
               (case locate_file_element (cur_page w s2) documents_section of
                  None \<Rightarrow> (False, count_failed s2)
                | Some file_element \<Rightarrow> click_and_verify w c re_bound file_element s2)))"

subsection \<open>Example disks\<close>





section \<open>\<open>download_all_resumes\<close>\<close>

text \<open>Lines 934--949: the way back to the candidate list after a candidate.\<close>

definition return_to_list :: "world \<Rightarrow> nat \<Rightarrow> nat \<Rightarrow> downloader \<Rightarrow> downloader" where
  "return_to_list w i n s =
     (case (if i < n
            then (case navigate_to_candidate_list w s of
                    (Inl e, s1) \<Rightarrow> (Inl e, s1)
                  | (Inr u, s1) \<Rightarrow> (Inr u, sleep 2000 s1))
            else (Inr (), s)) of
        (Inr _, s1) \<Rightarrow> sleep 2000 s1
      | (Inl _, s1) \<Rightarrow> snd (navigate_to_candidate_list w (count_failed s1)))"

text \<open>
  Lines 917--949, with the position \<open>i\<close> and the number \<open>n\<close> of candidates. The result
  is \<open>True\<close> when the loop executed \<open>return\<close> because the flag was set.
\<close>

fun candidate_loop :: "world \<Rightarrow> nat \<Rightarrow> nat \<Rightarrow> candidate list \<Rightarrow> downloader \<Rightarrow> bool \<times> downloader" where
  "candidate_loop w i n [] s = (False, s)"
| "candidate_loop w i n (candidate_url # rest) s =
     (if cancelled w s then (True, s)
      else candidate_loop w (i + 1) n rest
             (return_to_list w i n (snd (download_resume_from_profile w candidate_url s))))"

text \<open>Lines 955--964: the figures of the summary.\<close>

record summary =
  total_found :: nat
  unique_found :: nat
  total_downloaded :: nat
  unique_downloaded :: nat
  total_failed :: nat
  missing_candidates :: "string set"

definition summarise :: "string list \<Rightarrow> downloader \<Rightarrow> summary" where
  "summarise candidate_links s =
     \<lparr>total_found = length candidate_links,
      unique_found = card (all_candidate_ids s),
      total_downloaded = downloaded_count s,
      unique_downloaded = card (downloaded_candidate_ids s),
      total_failed = failed_count s,
      missing_candidates = all_candidate_ids s - downloaded_candidate_ids s\<rparr>"

text \<open>The three ways the method returns: lines 912, 921 and the end of the summary.\<close>

datatype run_exit = NoCandidates | CancelledByUser | Completed summary

text \<open>Lines 896--904: the enumeration and its one retry.\<close>

definition enumerate_with_retry :: "world \<Rightarrow> downloader \<Rightarrow> (exn + string list) \<times> downloader" where
  "enumerate_with_retry w s =
     (case get_candidate_links w s of
        (candidate_links, s1) \<Rightarrow>
          if candidate_links = [] then
            (case navigate_to_candidate_list w (sleep 10000 s1) of
               (Inl e, s2) \<Rightarrow> (Inl e, s2)
             | (Inr _, s2) \<Rightarrow>
                 (case get_candidate_links w s2 of (links2, s3) \<Rightarrow> (Inr links2, s3)))
          else (Inr candidate_links, s1))"

text \<open>Lines 906--996: from the list of links to the end of the \<open>try\<close>.\<close>

definition process_links :: "world \<Rightarrow> string list \<Rightarrow> downloader \<Rightarrow> run_exit \<times> downloader" where
  "process_links w candidate_links s =
     (if candidate_links = [] then (NoCandidates, s)
      else (case candidate_loop w 1 (length candidate_links) (map Link candidate_links) s of
              (True, s1) \<Rightarrow> (CancelledByUser, s1)
            | (False, s1) \<Rightarrow> (Completed (summarise candidate_links s1), s1)))"

text \<open>Lines 889--904: the driver, the candidate list and the enumeration.\<close>

definition prepare :: "world \<Rightarrow> downloader \<Rightarrow> (exn + string list) \<times> downloader" where
  "prepare w s =
     (case setup_driver w s of
        (Inl e, s1) \<Rightarrow> (Inl e, s1)
      | (Inr _, s1) \<Rightarrow>
          (case navigate_to_candidate_list w s1 of
             (Inl e, s2) \<Rightarrow> (Inl e, s2)
           | (Inr _, s2) \<Rightarrow> enumerate_with_retry w s2))"

text \<open>Lines 887--996: the body of the \<open>try\<close>.\<close>

definition run_body :: "world \<Rightarrow> downloader \<Rightarrow> (exn + run_exit) \<times> downloader" where
  "run_body w s =
     (case prepare w s of
        (Inl e, s1) \<Rightarrow> (Inl e, s1)
      | (Inr candidate_links, s1) \<Rightarrow>
          (case process_links w candidate_links s1 of (r, s2) \<Rightarrow> (Inr r, s2)))"

text \<open>
  Lines 1001--1004, the \<open>finally\<close>: the browser is closed when there is one; an
  exception of \<open>quit\<close> replaces the outcome.
\<close>

definition release :: "world \<Rightarrow> (exn + run_exit) \<times> downloader \<Rightarrow> (exn + run_exit) \<times> downloader" where
  "release w rs =
     (case rs of
        (r, s) \<Rightarrow>
          if driver s then
            (case act w Quit s of
               (Some e, s1) \<Rightarrow> (Inl e, s1)
             | (None, s1) \<Rightarrow> (r, s1))
          else (r, s))"

definition download_all_resumes :: "world \<Rightarrow> downloader \<Rightarrow> (exn + run_exit) \<times> downloader" where
  "download_all_resumes w s = release w (run_body w s)"

subsection \<open>The server's report of a run (\<open>api_server.py\<close>, lines 225--265)\<close>

datatype download_status = COMPLETED | FAILED | CANCELLED | LOGIN_REQUIRED

text \<open>
  \<open>str(e)\<close>. The program's own exceptions carry their message; the texts of the library's
  exceptions are not modelled, and none of them is written by this program.
\<close>

definition exn_text :: "exn \<Rightarrow> string" where
  "exn_text e = (case e of PyException m \<Rightarrow> m | _ \<Rightarrow> [])"

definition download_with_progress :: "world \<Rightarrow> downloader \<Rightarrow> download_status \<times> downloader" where
  "download_with_progress w s =
     (case download_all_resumes w s of
        (Inr _, s1) \<Rightarrow> (if cancelled w s1 then CANCELLED else COMPLETED, s1)
      | (Inl e, s1) \<Rightarrow>
          (if cancelled w s1 then CANCELLED
           else if str_in ''LOGIN_REQUIRED'' (exn_text e) then LOGIN_REQUIRED
           else FAILED, s1))"

subsection \<open>Auxiliary notions for the run\<close>

text \<open>The attributes that nothing changes once the driver is set up.\<close>

definition core :: "downloader \<Rightarrow> string \<times> cookie list option \<times> bool \<times> string set" where
  "core s = (job_id s, cookies s, driver s, downloaded_candidate_ids s)"

text \<open>The state after the browser was closed.\<close>

definition closed :: "downloader \<Rightarrow> downloader" where
  "closed s = s\<lparr>tick := Suc (tick s), trace := trace s @ [Quit]\<rparr>"

text \<open>A candidate list without candidates.\<close>

definition empty_page :: page where
  "empty_page =
     \<lparr>current_url = Inr ''https://app.jazz.co/app/v2/job/1/candidate?workflowStep=1'',
      page_find_element = (\<lambda>_ _. Inl NoSuchElementException),
      page_find_elements = (\<lambda>_ _. Inr []),
      scroll_height = Inr 100,
      wait_presence = (\<lambda>_ _. Inl TimeoutException)\<rparr>"

text \<open>A login page, and a machine on which \<open>DISPLAY\<close> is set.\<close>

definition login_page :: page where
  "login_page =
     \<lparr>current_url = Inr ''https://app.jazz.co/app/v2/login'',
      page_find_element = (\<lambda>_ _. Inl NoSuchElementException),
      page_find_elements = (\<lambda>_ _. Inr []),
      scroll_height = Inr 100,
      wait_presence = (\<lambda>_ _. Inl TimeoutException)\<rparr>"

definition headless_world :: world where
  "headless_world = (quiet_world login_page)\<lparr>env_DISPLAY := Some '':99''\<rparr>"

subsection \<open>An example run with two candidates\<close>

text \<open>A second candidate, found through the link to the scorecard.\<close>

definition second_link :: elem where
  "second_link = Elem
     (\<lambda>a. if a = ''href'' then Inr (Some ''https://app.jazz.co/app/v2/job/1/candidate/8/scorecard'')
          else Inr None)
     (\<lambda>_ _. Inl NoSuchElementException) (\<lambda>_ _. Inr []) (Inr ''Bob'') (Inr ''a'') (Inr True) None"

definition two_link_page :: page where
  "two_link_page = list_page\<lparr>page_find_elements :=
        (\<lambda>b v. if b = CSS_SELECTOR \<and> v = ''a[href*='/candidate/']''
               then Inr [free_link, second_link] else Inr [])\<rparr>"

text \<open>The flag is set while the first candidate is being fetched.\<close>

definition cancelling_world :: world where
  "cancelling_world = (quiet_world two_link_page)\<lparr>cancel_tick := Some 13\<rparr>"


text \<open>The object when the candidate loop starts.\<close>

definition after_prepare :: downloader where
  "after_prepare =
     \<lparr>job_id = ''1'', cookies = None, driver = True, downloaded_count = 0,
      failed_count = 0, downloaded_files = [], downloaded_candidate_ids = {},
      all_candidate_ids = {''7'', ''8''}, tick = 12, now = 15000,
      trace =
       [Maximize,
        Get ''https://app.jazz.co/app/v2/job/1/candidate?workflowStep=1'',
        Sleep 5000, Sleep 3000, ScrollBottom, Sleep 2000, ScrollBottom,
        Sleep 2000, ScrollBottom, Sleep 2000, ScrollTop, Sleep 1000]\<rparr>"

definition two_links :: "string list" where
  "two_links = [''https://app.jazz.co/app/v2/job/1/candidate/7/profile'',
                ''https://app.jazz.co/app/v2/job/1/candidate/8/profile'']"

section \<open>Download verification\<close>

declare poll_loop.simps [simp del]






section \<open>Scrolling\<close>

declare scroll_loop.simps [simp del]

lemma scroll_loop_cases [case_names finished cancel act_raises height_raises settled unchanged changed]:
  obtains
    "\<not> a < 50" "scroll_loop w a n h s = (Inr False, s)"
  | "a < 50" "cancelled w s" "scroll_loop w a n h s = (Inr True, s)"
  | e where "a < 50" "\<not> cancelled w s" "action_raises w (tick s) = Some e"
      "scroll_loop w a n h s = (Inl e, s\<lparr>tick := Suc (tick s), trace := trace s @ [ScrollBottom]\<rparr>)"
  | e where "a < 50" "\<not> cancelled w s" "action_raises w (tick s) = None"
      "scroll_height (cur_page w (after_scroll s)) = Inl e"
      "scroll_loop w a n h s = (Inl e, after_scroll s)"
  | "a < 50" "\<not> cancelled w s" "action_raises w (tick s) = None"
      "scroll_height (cur_page w (after_scroll s)) = Inr h" "2 \<le> n"
      "scroll_loop w a n h s = (Inr False, after_scroll s)"
  | "a < 50" "\<not> cancelled w s" "action_raises w (tick s) = None"
      "scroll_height (cur_page w (after_scroll s)) = Inr h" "n < 2"
      "scroll_loop w a n h s = scroll_loop w (Suc a) (Suc n) h (after_scroll s)"
  | nh where "a < 50" "\<not> cancelled w s" "action_raises w (tick s) = None"
      "scroll_height (cur_page w (after_scroll s)) = Inr nh" "nh \<noteq> h"
      "scroll_loop w a n h s = scroll_loop w (Suc a) 0 nh (after_scroll s)"
proof -
  have eq: "scroll_loop w a n h s =
     (if a < 50 then
        (if cancelled w s then (Inr True, s)
         else (case action_raises w (tick s) of
                 Some e \<Rightarrow> (Inl e, s\<lparr>tick := Suc (tick s), trace := trace s @ [ScrollBottom]\<rparr>)
               | None \<Rightarrow>
                   (case scroll_height (cur_page w (after_scroll s)) of
                      Inl e \<Rightarrow> (Inl e, after_scroll s)
                    | Inr new_height \<Rightarrow>
                        if new_height = h then
                          (if 2 \<le> n then (Inr False, after_scroll s)
                           else scroll_loop w (a + 1) (n + 1) new_height (after_scroll s))
                        else scroll_loop w (a + 1) 0 new_height (after_scroll s))))
      else (Inr False, s))"
    by (subst scroll_loop.simps)
       (auto simp: act_def after_scroll_def split: option.splits sum.splits)
  show thesis
  proof (cases "a < 50")
    case False
    then show ?thesis using that(1) eq by simp
  next
    case lt: True
    show ?thesis
    proof (cases "cancelled w s")
      case True
      then show ?thesis using that(2) eq lt by simp
    next
      case nc: False
      show ?thesis
      proof (cases "action_raises w (tick s)")
        case (Some e)
        then show ?thesis using that(3) eq lt nc by simp
      next
        case None
        show ?thesis
        proof (cases "scroll_height (cur_page w (after_scroll s))")
          case (Inl e)
          then show ?thesis using that(4) eq lt nc None by simp
        next
          case (Inr nh)
          show ?thesis
          proof (cases "nh = h")
            case True
            then show ?thesis using that(5) [OF lt nc None] that(6) [OF lt nc None] eq lt nc None Inr
              by (cases "2 \<le> n") simp_all
          next
            case False
            then show ?thesis using that(7) [OF lt nc None Inr] eq lt nc None Inr by simp
          qed
        qed
      qed
    qed
  qed
qed


lemma scrolls_snoc [simp]: "scrolls (t @ [e]) = (if e = ScrollBottom then Suc (scrolls t) else scrolls t)"
  by (simp add: scrolls_def)

lemma scrolls_append: "scrolls (t @ u) = scrolls t + scrolls u"
  by (simp add: scrolls_def)

lemma scrolls_sleep [simp]: "scrolls (trace (sleep ms s)) = scrolls (trace s)"
  by (simp add: sleep_def)

lemma tick_after [simp]: "tick (after_scroll s) = tick s + 2"
  by (simp add: sleep_def after_scroll_def)









section \<open>Not-hired filtering\<close>

lemma level_loop_step:
  "level_loop (Suc n) e =
     (descendant_marker e \<or>
      (level_clear e \<and>
       (case find_element e XPATH ''./..'' of Inl _ \<Rightarrow> False | Inr p \<Rightarrow> level_loop n p)))"
  by (simp add: descendant_marker_def level_clear_def split: sum.splits bool.splits)

lemma found_at_0: "found_at 0 e = descendant_marker e"
  by (simp add: found_at_def)

lemma found_at_Suc:
  "found_at (Suc i) e =
     (level_clear e \<and>
      (case find_element e XPATH ''./..'' of Inl _ \<Rightarrow> False | Inr p \<Rightarrow> found_at i p))"
proof (cases "find_element e XPATH ''./..''")
  case (Inl x)
  then show ?thesis by (simp add: found_at_def)
next
  case (Inr p)
  have "(\<forall>j<Suc i. \<exists>b. ancestor j e = Some b \<and> level_clear b) =
        (level_clear e \<and> (\<forall>j<i. \<exists>b. ancestor j p = Some b \<and> level_clear b))"
    using Inr by (auto simp: less_Suc_eq_0_disj)
  then show ?thesis using Inr by (simp add: found_at_def)
qed

lemma level_loop_iff: "level_loop n e = (\<exists>i<n. found_at i e)"
proof (induction n arbitrary: e)
  case 0
  then show ?case by simp
next
  case (Suc n)
  show ?case
    unfolding level_loop_step
    by (cases "find_element e XPATH ''./..''")
       (auto simp: less_Suc_eq_0_disj found_at_0 found_at_Suc Suc simp del: level_loop.simps)
qed

lemma quick_check_iff: "quick_check e = (own_class_marker e \<or> parent_marker e)"
  by (auto simp: quick_check_def quick_parent_check_def own_class_marker_def parent_marker_def
           split: sum.splits)

text \<open>
  C5, as the code has it. A candidate element is excluded exactly when a successful
  inspection finds the marker: in the element's own class attribute (\<open>not-hired\<close>, in any
  case), in its parent's class attribute or below its parent (both only when the element's
  own class could be read), or below the element, its parent or its grandparent (levels 0
  to 2, in that order, each level searched only after the levels before it were searched
  without error and in vain). An inspection that raises never excludes by itself.
\<close>

theorem is_candidate_not_hired_iff:
  "is_candidate_not_hired e = (own_class_marker e \<or> parent_marker e \<or> (\<exists>i<3. found_at i e))"
  by (simp add: is_candidate_not_hired_def quick_check_iff level_loop_iff)

theorem is_candidate_not_hired_iff_witness:
  "found_at 2 list_link \<and> is_candidate_not_hired list_link"
proof -
  have f: "found_at 2 list_link"
    by (simp add: found_at_def numeral_2_eq_2 less_Suc_eq_0_disj list_link_def list_item_def
        list_box_def nh_tag_def level_clear_def descendant_marker_def)
  then have "\<exists>i<3. found_at i list_link" by (intro exI [of _ 2]) simp
  then show ?thesis using f is_candidate_not_hired_iff [of list_link] by simp
qed

text \<open>
  C5 as the specification words it fails: the row at level 2 carries the marker class
  itself, and the link inside it is not excluded.
\<close>

theorem not_hired_level2_counterexample:
  "ancestor 2 row_link = Some marked_row \<and> class_marker marked_row \<and>
   \<not> is_candidate_not_hired row_link"
  by (simp add: numeral_2_eq_2 numeral_3_eq_3 row_link_def row_cell_def marked_row_def
      class_marker_def is_candidate_not_hired_def quick_check_def quick_parent_check_def
      or_empty_def startswith_def lower_def lower_char_def)

section \<open>The selector cascade\<close>

lemma first_matching_first:
  "i < length sels \<Longrightarrow> page_find_elements p CSS_SELECTOR (sels ! i) = Inr es \<Longrightarrow> es \<noteq> []
   \<Longrightarrow> \<forall>j<i. no_match p (sels ! j) \<Longrightarrow> first_matching p sels = es"
proof (induction sels arbitrary: i)
  case Nil
  then show ?case by simp
next
  case (Cons x xs)
  show ?case
  proof (cases i)
    case 0
    with Cons.prems show ?thesis by simp
  next
    case (Suc k)
    have nm: "no_match p x" using Cons.prems(4) Suc by auto
    have "first_matching p xs = es"
    proof (rule Cons.IH [of k])
      show "k < length xs" using Cons.prems(1) Suc by simp
      show "page_find_elements p CSS_SELECTOR (xs ! k) = Inr es" using Cons.prems(2) Suc by simp
      show "es \<noteq> []" by (rule Cons.prems(3))
      show "\<forall>j<k. no_match p (xs ! j)" using Cons.prems(4) Suc by auto
    qed
    with nm show ?thesis by (auto simp: no_match_def split: sum.splits)
  qed
qed

text \<open>
  C6. When the selector at position \<open>i\<close> of the fixed list finds elements and no
  selector before it does, the candidate elements are exactly the elements of that one
  selector: whatever the later selectors would find is not looked at, and the row
  fallback is not used.
\<close>

theorem candidate_elements_first_selector:
  "i < length selectors \<Longrightarrow> page_find_elements p CSS_SELECTOR (selectors ! i) = Inr es
   \<Longrightarrow> es \<noteq> [] \<Longrightarrow> \<forall>j<i. no_match p (selectors ! j) \<Longrightarrow> candidate_elements p = es"
  by (simp add: candidate_elements_def first_matching_first)

theorem candidate_elements_first_selector_witness:
  "selectors ! 2 = ''.candidate-link'' \<and> candidate_elements third_selector_page = [free_link]"
proof -
  have a: "(2::nat) < length selectors" by (simp add: selectors_def)
  have b: "page_find_elements third_selector_page CSS_SELECTOR (selectors ! 2) = Inr [free_link]"
    by (simp add: selectors_def third_selector_page_def)
  have c: "[free_link] \<noteq> []" by simp
  have d: "\<forall>j<2. no_match third_selector_page (selectors ! j)"
    by (simp add: less_2_cases_iff selectors_def third_selector_page_def no_match_def)
  from candidate_elements_first_selector [OF a b c d] show ?thesis
    by (simp add: selectors_def)
qed

section \<open>Deduplication and normalisation\<close>

lemma process_elements_Cons:
  "process_elements (e # rest) d =
     (case candidate_key e of
        None \<Rightarrow> process_elements rest d
      | Some (cid, href) \<Rightarrow>
          if cid \<in> fst ` set d then process_elements rest d
          else process_elements rest (d @ [(cid, href)]))"
  by (simp add: candidate_key_def split: sum.splits option.splits)

declare process_elements.simps(2) [simp del]












section \<open>Login detection\<close>

lemma indicators_loop_raises:
  "i < length xs \<Longrightarrow> \<forall>k<i. indicator_skipped p (xs ! k) \<Longrightarrow> indicator_raises p (xs ! i) e
   \<Longrightarrow> indicators_loop p xs = Inl e"
proof (induction xs arbitrary: i)
  case Nil
  then show ?case by simp
next
  case (Cons x xs)
  show ?case
  proof (cases i)
    case 0
    with Cons.prems show ?thesis
      by (auto simp: indicator_raises_def)
  next
    case (Suc j)
    have sk: "indicator_skipped p x" using Cons.prems(2) Suc by auto
    have "indicators_loop p xs = Inl e"
    proof (rule Cons.IH [of j])
      show "j < length xs" using Cons.prems(1) Suc by simp
      show "\<forall>k<j. indicator_skipped p (xs ! k)" using Cons.prems(2) Suc by auto
      show "indicator_raises p (xs ! j) e" using Cons.prems(3) Suc by simp
    qed
    with sk show ?thesis
      by (auto simp: indicator_skipped_def)
  qed
qed

lemma classification_raises_try:
  "classification_raises p job e \<Longrightarrow> check_login_try p job = Inl e"
  unfolding classification_raises_def check_login_try_def
  by (auto simp: indicators_loop_raises)

text \<open>
  C10. Whenever an exception is raised while the page is classified (by reading the
  URL, by looking an indicator up or by asking whether it is displayed),
  \<open>check_login_required\<close> returns \<open>False\<close>: the session counts as logged in.
\<close>

theorem check_login_required_error:
  "classification_raises (cur_page w s) (job_id s) e \<Longrightarrow> check_login_required w s = False"
  by (simp add: check_login_required_def check_login_on_def classification_raises_try)

theorem check_login_required_error_witness:
  "classification_raises (cur_page (quiet_world broken_page) ((init_downloader ''1'' None)\<lparr>driver := True\<rparr>))
      (job_id ((init_downloader ''1'' None)\<lparr>driver := True\<rparr>)) WebDriverException
   \<and> check_login_required (quiet_world broken_page) ((init_downloader ''1'' None)\<lparr>driver := True\<rparr>) = False"
proof -
  have i: "\<exists>i<length login_indicators.
            (\<forall>k<i. indicator_skipped broken_page (login_indicators ! k)) \<and>
            indicator_raises broken_page (login_indicators ! i) WebDriverException"
    by (rule exI [of _ 0])
       (simp add: login_indicators_def indicator_raises_def broken_page_def)
  have u: "current_url broken_page = Inr ''https://app.jazz.co/app/v2/dashboard''"
    by (simp add: broken_page_def)
  have n: "\<not> str_in (''/job/'' @ ''1'' @ ''/candidate'') ''https://app.jazz.co/app/v2/dashboard''
      \<and> \<not> str_in ''login'' (lower ''https://app.jazz.co/app/v2/dashboard'')
      \<and> \<not> str_in ''signin'' (lower ''https://app.jazz.co/app/v2/dashboard'')"
    by (simp add: startswith_def lower_def lower_char_def)
  have h: "classification_raises (cur_page (quiet_world broken_page) ((init_downloader ''1'' None)\<lparr>driver := True\<rparr>))
      (job_id ((init_downloader ''1'' None)\<lparr>driver := True\<rparr>)) WebDriverException"
    unfolding classification_raises_def
    using i u n by (simp add: cur_page_def quiet_world_def init_downloader_def)
  from check_login_required_error [OF h] h show ?thesis by simp
qed

section \<open>What the steps of a run leave unchanged\<close>

lemma core_updates [simp]:
  "core (s\<lparr>tick := t\<rparr>) = core s"
  "core (s\<lparr>now := m\<rparr>) = core s"
  "core (s\<lparr>trace := tr\<rparr>) = core s"
  "core (s\<lparr>all_candidate_ids := a\<rparr>) = core s"
  "core (s\<lparr>failed_count := k\<rparr>) = core s"
  "core (s\<lparr>downloaded_count := k\<rparr>) = core s"
  "core (s\<lparr>downloaded_files := fs\<rparr>) = core s"
  by (simp_all add: core_def)

lemma core_prims [simp]:
  "core (sleep ms s) = core s"
  "core (snd (act w ev s)) = core s"
  "core (waited s) = core s"
  "core (count_failed s) = core s"
  "core (record_file f s) = core s"
  "core (after_scroll s) = core s"
  "core (snd (click_element w el s)) = core s"
  by (simp_all add: core_def sleep_def act_def waited_def count_failed_def record_file_def
      after_scroll_def click_element_def split: option.splits)

lemma core_poll_loop [simp]:
  "core (snd (poll_loop w i st s)) = core s"
proof (induction w i st s rule: poll_loop.induct)
  case (1 w i st s)
  then show ?case
    by (subst poll_loop.simps) (simp split: option.splits)
qed

lemma core_verify_download [simp]:
  "core (snd (verify_download w s)) = core s"
  by (simp add: verify_download_def chrome_fallback_def split_beta
           split: option.splits list.splits)

declare wait_for_login_loop.simps [simp del]

lemma core_wait_for_login_loop [simp]:
  "core (snd (wait_for_login_loop w t s)) = core s"
proof (induction w t s rule: wait_for_login_loop.induct)
  case (1 w t s)
  then show ?case
    by (subst wait_for_login_loop.simps) (simp add: Let_def)
qed

lemma core_get_and_settle [simp]:
  "core (snd (get_and_settle w u s)) = core s"
  by (simp add: get_and_settle_def split_beta split: option.splits)

lemma core_navigate_after_login [simp]:
  "core (snd (navigate_after_login w u s)) = core s"
  by (simp add: navigate_after_login_def split_beta split: sum.splits)

lemma core_handle_login_required [simp]:
  "core (snd (handle_login_required w u s)) = core s"
  by (simp add: handle_login_required_def wait_for_login_def split_beta split: sum.splits bool.splits)

lemma core_navigate [simp]:
  "core (snd (navigate_to_candidate_list w s)) = core s"
  by (simp add: navigate_to_candidate_list_def split_beta split: sum.splits)

lemma core_scroll_loop [simp]:
  "core (snd (scroll_loop w a n h s)) = core s"
proof (induction "50 - a" arbitrary: a n h s)
  case 0
  then show ?case by (cases rule: scroll_loop_cases [of a w n h s]) simp_all
next
  case (Suc k)
  have k: "k = 50 - Suc a" using Suc.hyps(2) by arith
  show ?case
    by (cases rule: scroll_loop_cases [of a w n h s]) (simp_all add: Suc.hyps(1) [OF k])
qed

lemma core_scroll_to_load [simp]:
  "core (snd (scroll_to_load_all_candidates w s)) = core s"
  by (simp add: scroll_to_load_all_candidates_def split_beta split: sum.splits bool.splits option.splits)

lemma core_get_candidate_links [simp]:
  "core (snd (get_candidate_links w s)) = core s"
  by (simp add: get_candidate_links_def split_beta split: sum.splits)

lemma core_add_cookies [simp]:
  "core (add_cookies w cs s) = core s"
  by (induction cs arbitrary: s) (simp_all split: option.splits)

lemma core_load_cookies [simp]: "core (snd (load_cookies w s)) = core s"
  by (simp add: load_cookies_def split_beta split: option.splits)

lemma ids_setup_driver:
  "downloaded_candidate_ids (snd (setup_driver w s)) = downloaded_candidate_ids s"
proof -
  have "downloaded_candidate_ids (snd (load_cookies w x)) = downloaded_candidate_ids x" for x
    using core_load_cookies [of w x] by (simp add: core_def)
  then show ?thesis
    by (simp add: setup_driver_def act_def split_beta split: option.splits)
qed

lemma setup_driver_driver: "setup_driver w s = (Inr u, s1) \<Longrightarrow> driver s1"
proof -
  assume a: "setup_driver w s = (Inr u, s1)"
  have l: "driver (snd (load_cookies w x)) = driver x" for x
    using core_load_cookies [of w x] by (simp add: core_def)
  have "fst (setup_driver w s) = Inr u \<longrightarrow> driver (snd (setup_driver w s))"
    by (simp add: setup_driver_def act_def l split: option.splits)
  then show ?thesis using a by simp
qed

lemma open_profile_link_unbound: "fst (open_profile w (Link u) s) \<noteq> Inr True"
  by (simp add: open_profile_def split_beta split: option.splits)

lemma core_open_profile [simp]:
  "core (snd (open_profile w c s)) = core s"
  by (simp add: open_profile_def open_row_try_def split_beta
           split: candidate.splits option.splits sum.splits)

lemma core_find_documents_section [simp]:
  "core (snd (find_documents_section w s)) = core s"
  by (simp add: find_documents_section_def split: sum.splits)

lemma core_trigger [simp]:
  "core (snd (trigger w fe s)) = core s"
  by (simp add: trigger_def split_beta split: option.splits)

lemma core_count_downloaded_None: "core (count_downloaded None s) = core s"
  by (simp add: core_def count_downloaded_def)

lemma core_click_and_verify_row [simp]:
  "core (snd (click_and_verify w (Row e) rb fe s)) = core s"
  by (simp add: click_and_verify_def tracked_candidate_id_def core_count_downloaded_None
           split_beta split: option.splits bool.splits)

lemma core_click_and_verify_link [simp]:
  "core (snd (click_and_verify w (Link u) False fe s)) = core s"
  by (simp add: click_and_verify_def tracked_candidate_id_def split_beta split: option.splits)

lemma core_download_resume_from_profile [simp]:
  "core (snd (download_resume_from_profile w c s)) = core s"
proof (cases c)
  case (Link u)
  have "rb = False" if "fst (open_profile w (Link u) s) = Inr rb" for rb
    using that open_profile_link_unbound [of w u s] by (cases rb) auto
  then show ?thesis
    using Link
    by (auto simp: download_resume_from_profile_def split_beta split: sum.splits option.splits)
next
  case (Row e)
  then show ?thesis
    by (simp add: download_resume_from_profile_def split_beta split: sum.splits option.splits)
qed

lemma core_return_to_list [simp]: "core (return_to_list w i n s) = core s"
  by (simp add: return_to_list_def split_beta split: sum.splits)

lemma core_candidate_loop [simp]: "core (snd (candidate_loop w i n cs s)) = core s"
  by (induction cs arbitrary: i s) simp_all

lemma core_enumerate_with_retry [simp]: "core (snd (enumerate_with_retry w s)) = core s"
  by (simp add: enumerate_with_retry_def split_beta split: sum.splits)

lemma core_process_links [simp]: "core (snd (process_links w ls s)) = core s"
  by (simp add: process_links_def split_beta split: bool.splits)

lemma ids_navigate:
  "downloaded_candidate_ids (snd (navigate_to_candidate_list w s)) = downloaded_candidate_ids s"
  using core_navigate [of w s] by (simp add: core_def)

lemma ids_enumerate_with_retry:
  "downloaded_candidate_ids (snd (enumerate_with_retry w s)) = downloaded_candidate_ids s"
  using core_enumerate_with_retry [of w s] by (simp add: core_def)

lemma ids_process_links:
  "downloaded_candidate_ids (snd (process_links w ls s)) = downloaded_candidate_ids s"
  using core_process_links [of w ls s] by (simp add: core_def)

lemma ids_candidate_loop:
  "downloaded_candidate_ids (snd (candidate_loop w i n cs s)) = downloaded_candidate_ids s"
  using core_candidate_loop [of w i n cs s] by (simp add: core_def)

lemma ids_prepare: "downloaded_candidate_ids (snd (prepare w s)) = downloaded_candidate_ids s"
  by (simp add: prepare_def split_beta ids_setup_driver ids_navigate ids_enumerate_with_retry
           split: sum.splits)

lemma ids_release:
  "downloaded_candidate_ids (snd (release w rs)) = downloaded_candidate_ids (snd rs)"
  by (simp add: release_def act_def split_beta split: option.splits)

lemma ids_download_all_resumes:
  "downloaded_candidate_ids (snd (download_all_resumes w s)) = downloaded_candidate_ids s"
  by (simp add: download_all_resumes_def ids_release run_body_def split_beta
      ids_prepare ids_process_links split: sum.splits)

section \<open>Evaluating the example runs\<close>

lemmas eval_defs =
  prepare_def setup_driver_def navigate_to_candidate_list_def get_and_settle_def
  check_login_required_def check_login_on_def check_login_try_def candidate_list_url_def
  enumerate_with_retry_def get_candidate_links_def scroll_to_load_all_candidates_def
  scroll_loop.simps links_of_elements_def candidate_elements_def selectors_def
  process_elements_Cons candidate_key_def normalize_link_def profile_url_def
  is_candidate_not_hired_def quick_check_def quick_parent_check_def or_empty_def
  startswith_def endswith_def match_here_def is_digit_def lower_def numeral_3_eq_3
  cur_page_def cancelled_def act_def sleep_def cookies_given_def init_downloader_def
  quiet_world_def


lemma prepare_two_links: "prepare cancelling_world (init_downloader ''1'' None) = (Inr two_links, after_prepare)"
  by (simp add: eval_defs cancelling_world_def two_link_page_def list_page_def free_link_def
      second_link_def after_prepare_def two_links_def insert_commute)



section \<open>Found and downloaded candidates\<close>

text \<open>
  C1. At the end of every run, and after every per-candidate step of its loop, the
  downloaded ids are among the found ids and are not more numerous. In this program the
  set of downloaded ids in fact stays empty: a profile URL is a string, and for a string
  the lookup of \<open>re\<close> at line 845 raises before the id could be recorded (see
  \<open>open_profile\<close> and \<open>tracked_candidate_id\<close>); an element records no id at all.
\<close>

theorem downloaded_subset_found:
  "downloaded_candidate_ids (snd (download_all_resumes w (init_downloader j cs)))
     \<subseteq> all_candidate_ids (snd (download_all_resumes w (init_downloader j cs))) \<and>
   card (downloaded_candidate_ids (snd (download_all_resumes w (init_downloader j cs))))
     \<le> card (all_candidate_ids (snd (download_all_resumes w (init_downloader j cs)))) \<and>
   (prepare w (init_downloader j cs) = (Inr links, s0) \<longrightarrow>
      downloaded_candidate_ids
          (snd (candidate_loop w 1 (length links) (map Link (take k links)) s0))
        \<subseteq> all_candidate_ids
            (snd (candidate_loop w 1 (length links) (map Link (take k links)) s0)) \<and>
      card (downloaded_candidate_ids
          (snd (candidate_loop w 1 (length links) (map Link (take k links)) s0)))
        \<le> card (all_candidate_ids
            (snd (candidate_loop w 1 (length links) (map Link (take k links)) s0))))"
proof -
  have i: "downloaded_candidate_ids (init_downloader j cs) = {}"
    by (simp add: init_downloader_def)
  have a: "downloaded_candidate_ids (snd (download_all_resumes w (init_downloader j cs))) = {}"
    by (simp add: ids_download_all_resumes i)
  have b: "downloaded_candidate_ids
          (snd (candidate_loop w 1 (length links) (map Link (take k links)) s0)) = {}"
    if "prepare w (init_downloader j cs) = (Inr links, s0)"
    using ids_prepare [of w "init_downloader j cs"] that i
    by (simp add: ids_candidate_loop)
  show ?thesis using a b by simp
qed

theorem downloaded_subset_found_witness:
  "downloaded_candidate_ids
      (snd (candidate_loop cancelling_world 1 (length two_links) (map Link (take 1 two_links))
              after_prepare))
     \<subseteq> all_candidate_ids
      (snd (candidate_loop cancelling_world 1 (length two_links) (map Link (take 1 two_links))
              after_prepare))"
  using downloaded_subset_found [of cancelling_world "''1''" None two_links after_prepare 1] prepare_two_links
  by simp

section \<open>Cancellation\<close>








section \<open>Login in headless mode\<close>

text \<open>
  C8. With \<open>HEADLESS\<close> or \<open>DISPLAY\<close> set and no cookies, a run that finds the login
  page after its first navigation raises "Login required but no cookies provided for
  headless mode" at once: the browser was started, sent to the candidate list and given
  five seconds, and is then closed; nothing waits for a login and no candidate is
  enumerated or fetched. (If closing the browser raises, that exception is the one raised.)
\<close>

theorem headless_without_cookies_fails_fast:
  "use_headless w \<Longrightarrow> \<not> cookies_given (init_downloader j cs) \<Longrightarrow> chrome_starts w = None
   \<Longrightarrow> action_raises w 0 = None \<Longrightarrow> action_raises w 1 = None
   \<Longrightarrow> check_login_on (page_at w 3) j
   \<Longrightarrow> download_all_resumes w (init_downloader j cs) =
        (Inl (case action_raises w 3 of
                None \<Rightarrow> PyException ''Login required but no cookies provided for headless mode''
              | Some e \<Rightarrow> e),
         (init_downloader j cs)\<lparr>driver := True, tick := 4, now := 5000,
            trace := [Maximize, Get (candidate_list_url j), Sleep 5000, Quit]\<rparr>)"
  by (simp add: download_all_resumes_def release_def run_body_def prepare_def setup_driver_def
      navigate_to_candidate_list_def get_and_settle_def handle_login_required_def
      check_login_required_def cur_page_def act_def sleep_def init_downloader_def
      cookies_given_def numeral_3_eq_3 split: option.splits)

theorem headless_without_cookies_fails_fast_witness:
  "download_all_resumes headless_world (init_downloader ''1'' None) =
     (Inl (PyException ''Login required but no cookies provided for headless mode''),
      (init_downloader ''1'' None)\<lparr>driver := True, tick := 4, now := 5000,
         trace := [Maximize, Get (candidate_list_url ''1''), Sleep 5000, Quit]\<rparr>)"
proof -
  have a: "use_headless headless_world"
    by (simp add: use_headless_def headless_world_def)
  have b: "\<not> cookies_given (init_downloader ''1'' None)"
    by (simp add: cookies_given_def init_downloader_def)
  have c: "chrome_starts headless_world = None" "action_raises headless_world 0 = None"
    "action_raises headless_world 1 = None" "action_raises headless_world 3 = None"
    by (simp_all add: headless_world_def quiet_world_def)
  have d: "check_login_on (page_at headless_world 3) ''1''"
    by (simp add: check_login_on_def check_login_try_def headless_world_def quiet_world_def
        login_page_def startswith_def lower_def lower_char_def)
  from headless_without_cookies_fails_fast [OF a b c(1,2,3) d] c(4) show ?thesis by simp
qed

section \<open>Empty enumeration\<close>

text \<open>
  C9, as the code has it. When the first enumeration finds nothing, the run pauses ten
  seconds, navigates to the candidate list again and enumerates a second time; when that
  finds nothing either, the run closes the browser and returns normally through its
  no-candidates exit. No exception reaches the caller, and the server reports the run as
  completed unless it was cancelled or closing the browser raised.
\<close>

theorem empty_enumeration_retried_once:
  assumes "setup_driver w s = (Inr (), s1)"
    and "navigate_to_candidate_list w s1 = (Inr (), s2)"
    and "get_candidate_links w s2 = ([], s3)"
    and "navigate_to_candidate_list w (sleep 10000 s3) = (Inr (), s4)"
    and "get_candidate_links w s4 = ([], s5)"
  shows "download_all_resumes w s =
           (case action_raises w (tick s5) of None \<Rightarrow> Inr NoCandidates | Some e \<Rightarrow> Inl e,
            closed s5) \<and>
         (action_raises w (tick s5) = None \<and> \<not> cancelled w (closed s5) \<longrightarrow>
            fst (download_with_progress w s) = COMPLETED)"
proof -
  have d1: "driver s1" using assms(1) by (rule setup_driver_driver)
  have "driver s2" using core_navigate [of w s1] assms(2) d1 by (simp add: core_def)
  then have "driver s3" using core_get_candidate_links [of w s2] assms(3) by (simp add: core_def)
  then have "driver s4"
    using core_navigate [of w "sleep 10000 s3"] assms(4) by (simp add: core_def sleep_def)
  then have d5: "driver s5" using core_get_candidate_links [of w s4] assms(5) by (simp add: core_def)
  have p: "prepare w s = (Inr [], s5)"
    using assms by (simp add: prepare_def enumerate_with_retry_def)
  have r: "download_all_resumes w s =
           (case action_raises w (tick s5) of None \<Rightarrow> Inr NoCandidates | Some e \<Rightarrow> Inl e,
            closed s5)"
    using p d5
    by (simp add: download_all_resumes_def release_def run_body_def process_links_def
        act_def closed_def split: option.splits)
  then show ?thesis by (simp add: download_with_progress_def)
qed

theorem empty_enumeration_retried_once_witness:
  "download_all_resumes (quiet_world empty_page) (init_downloader ''1'' None) =
     (Inr NoCandidates,
      closed (snd (get_candidate_links (quiet_world empty_page)
        (snd (navigate_to_candidate_list (quiet_world empty_page)
          (sleep 10000 (snd (get_candidate_links (quiet_world empty_page)
            (snd (navigate_to_candidate_list (quiet_world empty_page)
              (snd (setup_driver (quiet_world empty_page) (init_downloader ''1'' None))))))))))))) \<and>
   fst (download_with_progress (quiet_world empty_page) (init_downloader ''1'' None)) = COMPLETED"
proof -
  let ?w = "quiet_world empty_page"
  let ?s1 = "snd (setup_driver ?w (init_downloader ''1'' None))"
  let ?s2 = "snd (navigate_to_candidate_list ?w ?s1)"
  let ?s3 = "snd (get_candidate_links ?w ?s2)"
  let ?s4 = "snd (navigate_to_candidate_list ?w (sleep 10000 ?s3))"
  let ?s5 = "snd (get_candidate_links ?w ?s4)"
  have a: "setup_driver ?w (init_downloader ''1'' None) = (Inr (), ?s1)"
    by (simp add: eval_defs empty_page_def)
  have b: "navigate_to_candidate_list ?w ?s1 = (Inr (), ?s2)"
    by (simp add: eval_defs empty_page_def)
  have c: "get_candidate_links ?w ?s2 = ([], ?s3)"
    by (simp add: eval_defs empty_page_def)
  have d: "navigate_to_candidate_list ?w (sleep 10000 ?s3) = (Inr (), ?s4)"
    by (simp add: eval_defs empty_page_def)
  have e: "get_candidate_links ?w ?s4 = ([], ?s5)"
    by (simp add: eval_defs empty_page_def)
  have q: "action_raises ?w (tick ?s5) = None" "\<not> cancelled ?w (closed ?s5)"
    by (simp_all add: quiet_world_def cancelled_def)
  from empty_enumeration_retried_once [OF a b c d e] q show ?thesis by simp
qed

text \<open>
  C9 as the specification words it fails: on a job without candidates the run ends
  without raising anything, and the server reports it as completed.
\<close>

theorem empty_enumeration_counterexample:
  "fst (download_all_resumes (quiet_world empty_page) (init_downloader ''1'' None)) = Inr NoCandidates \<and>
   fst (download_with_progress (quiet_world empty_page) (init_downloader ''1'' None)) = COMPLETED"
  by (simp add: download_with_progress_def download_all_resumes_def release_def run_body_def
      process_links_def eval_defs empty_page_def)

end
